theory Spec2Isabelle
  imports
    Complex_Main
    "HOL-Library.Char_ord"
    "HOL-Library.List_Lexorder"
    "HOL-Library.Multiset"
begin

section \<open>Tables, cells and Python exceptions\<close>

text \<open>
  The reports module (\<^verbatim>\<open>fairmlhealth/reports.py\<close>) works on pandas data frames. A frame is
  modelled column-major, as pandas stores it: a list of named columns, each a list of cells,
  together with the row index (one key per row, one label per index level) and the names of
  the index levels. Cells are floats (read as the real numbers they denote), the float NaN,
  or strings. Column names are strings, ordered as Python orders \<^verbatim>\<open>str\<close>: lexicographically
  by code point.
\<close>

datatype cell = Num real | NaN | Str string

datatype label = IntL int | FloatL real | StrL string | NaNL

record frame =
  names :: "string option list"
  index :: "label list list"
  cols :: "(string \<times> cell list) list"

datatype exn =
    KeyError string
  | ValueError string
  | TypeError
  | AttributeError
  | IndexError
  | Exc string

definition columns :: "frame \<Rightarrow> string list" where
  "columns df = map fst (cols df)"

definition RangeIndex :: "nat \<Rightarrow> label list list" where
  "RangeIndex n = map (\<lambda>i. [IntL (int i)]) [0..<n]"

text \<open>\<^verbatim>\<open>len(df)\<close>: the number of rows.\<close>

definition len :: "frame \<Rightarrow> nat" where
  "len df = length (index df)"

text \<open>
  \<^verbatim>\<open>df[[k1, ..., kn]]\<close>: selection of columns by a list of names. Each name selects every
  column that carries it; a name that is no column raises \<^verbatim>\<open>KeyError\<close>.
\<close>

definition getitem_list :: "frame \<Rightarrow> string list \<Rightarrow> exn + frame" where
  "getitem_list df ks =
     (case filter (\<lambda>k. k \<notin> set (columns df)) ks of
        k # _ \<Rightarrow> Inl (KeyError k)
      | [] \<Rightarrow> Inr (df\<lparr>cols := concat (map (\<lambda>k. filter (\<lambda>c. fst c = k) (cols df)) ks)\<rparr>))"

section \<open>Column order of a report: \<^verbatim>\<open>sort_report\<close>\<close>

text \<open>
  The display names of the true and the predicted target come from \<^verbatim>\<open>y_cols()\<close>, which is
  defined in the preprocessing module; they are parameters \<open>yname\<close> and \<open>yhname\<close> here.
\<close>

definition head_names :: "string \<Rightarrow> string \<Rightarrow> string list" where
  "head_names yname yhname =
     [''Feature Name'', ''Feature Value'', ''Obs.'', yname @ '' Mean'', yhname @ '' Mean'']"

definition sort_report :: "string \<Rightarrow> string \<Rightarrow> frame \<Rightarrow> exn + frame" where
  "sort_report yname yhname report =
     (let head_cols = filter (\<lambda>c. c \<in> set (columns report)) (head_names yname yhname);
          tail_cols = sort (filter (\<lambda>c. c \<notin> set head_cols) (columns report))
      in getitem_list report (head_cols @ tail_cols))"

definition report0 :: frame where
  "report0 = \<lparr>names = [None], index = RangeIndex 2,
     cols = [(''TPR'', [Num 1, Num 0.5]), (''Obs.'', [Num 10, Num 4]),
             (''Feature Value'', [Str ''ALL VALUES'', Str ''north'']),
             (''Accuracy'', [Num 0.9, NaN]),
             (''Target Mean'', [Num 0.5, Num 0.25]),
             (''Feature Name'', [Str ''ALL FEATURES'', Str ''region''])]\<rparr>"

section \<open>Exceptions in expressions\<close>

text \<open>
  A Python expression either raises or has a value: \<open>Inl\<close> is the exception raised.
  \<open>and_then\<close> sequences two evaluations and \<open>mapM\<close> is a list comprehension whose body may
  raise: the first exception ends it.
\<close>

definition and_then :: "exn + 'a \<Rightarrow> ('a \<Rightarrow> exn + 'b) \<Rightarrow> exn + 'b" where
  "and_then m f = (case m of Inl e \<Rightarrow> Inl e | Inr x \<Rightarrow> f x)"

fun mapM :: "('a \<Rightarrow> exn + 'b) \<Rightarrow> 'a list \<Rightarrow> exn + 'b list" where
  "mapM f [] = Inr []"
| "mapM f (x # xs) =
     (case f x of
        Inl e \<Rightarrow> Inl e
      | Inr y \<Rightarrow> (case mapM f xs of Inl e \<Rightarrow> Inl e | Inr ys \<Rightarrow> Inr (y # ys)))"

section \<open>The Flagger\<close>

subsection \<open>Lower-casing and the classification lists\<close>

text \<open>
  \<^verbatim>\<open>str.lower()\<close> on ASCII text: the capital letters map to the small ones, every other
  character stays.
\<close>

definition lower_char :: "char \<Rightarrow> char" where
  "lower_char c =
     (case map_of (zip ''ABCDEFGHIJKLMNOPQRSTUVWXYZ'' ''abcdefghijklmnopqrstuvwxyz'') c of
        Some d \<Rightarrow> d
      | None \<Rightarrow> c)"

definition lower :: "string \<Rightarrow> string" where
  "lower s = map lower_char s"

text \<open>The four class attributes of \<^verbatim>\<open>__Flagger\<close>, character by character as in the source.\<close>

definition diffs_list :: "string list" where
  "diffs_list = [''auc difference'', ''balanced accuracy difference'',
            ''equalized odds difference'', ''positive predictive parity difference'',
            ''Statistical Parity Difference'', ''fpr diff'', ''tpr diff'', ''ppv diff'']"

definition ratios :: "string list" where
  "ratios = [''balanced accuracy ratio'', ''disparate impact ratio '',
             ''equalized odds ratio'', ''fpr ratio'', ''tpr ratio'', ''ppv ratio'']"

definition stats_high :: "string list" where
  "stats_high = [''consistency score'']"

definition stats_low :: "string list" where
  "stats_low = [''between-group gen. entropy error'']"

subsection \<open>The instance, the object store and series\<close>

text \<open>
  \<^verbatim>\<open>apply_flag\<close> stores the caller's frame object in \<^verbatim>\<open>self.df\<close> without copying it, so the
  frames live in a store and the Flagger holds a reference. A series is what the Styler hands
  to a colouring function: a column (its name is the column name) under \<^verbatim>\<open>axis=0\<close>, a row
  (its name is the row's index key) under \<^verbatim>\<open>axis=1\<close>.
\<close>

type_synonym store = "nat \<Rightarrow> frame"

datatype layout = Index_layout | Columns_layout

record flagger =
  df :: "nat option"
  labels :: "label list option"
  label_type :: "layout option"
  flag_type :: string
  flag_color :: string

record series =
  name :: "label list"
  vals :: "cell list"

datatype pyval = PyInt int | PyBool bool | PyFloat real | PyStr string | PyNone

fun isinstance_int :: "pyval \<Rightarrow> bool" where
  "isinstance_int (PyInt _) = True"
| "isinstance_int (PyBool _) = True"
| "isinstance_int _ = False"

fun isinstance_bool :: "pyval \<Rightarrow> bool" where
  "isinstance_bool (PyBool _) = True"
| "isinstance_bool _ = False"

definition reset :: "flagger \<Rightarrow> flagger" where
  "reset self = self\<lparr>df := None, labels := None, label_type := None,
                     flag_type := ''background-color'', flag_color := ''magenta''\<rparr>"

definition flag_style :: "flagger \<Rightarrow> string" where
  "flag_style self = flag_type self @ '':'' @ flag_color self"

subsection \<open>Comparisons of a cell with a float\<close>

text \<open>
  Every comparison with NaN is false; comparing a string with a float raises \<^verbatim>\<open>TypeError\<close>,
  and so does \<^verbatim>\<open>np.isnan\<close> of a string.
\<close>

fun float_lt_cell :: "real \<Rightarrow> cell \<Rightarrow> exn + bool" where
  "float_lt_cell a (Num r) = Inr (a < r)"
| "float_lt_cell a NaN = Inr False"
| "float_lt_cell a (Str _) = Inl TypeError"

fun cell_lt_float :: "cell \<Rightarrow> real \<Rightarrow> exn + bool" where
  "cell_lt_float (Num r) b = Inr (r < b)"
| "cell_lt_float NaN b = Inr False"
| "cell_lt_float (Str _) b = Inl TypeError"

fun cell_gt_float :: "cell \<Rightarrow> real \<Rightarrow> exn + bool" where
  "cell_gt_float (Num r) b = Inr (r > b)"
| "cell_gt_float NaN b = Inr False"
| "cell_gt_float (Str _) b = Inl TypeError"

fun isnan :: "cell \<Rightarrow> exn + bool" where
  "isnan (Num _) = Inr False"
| "isnan NaN = Inr True"
| "isnan (Str _) = Inl TypeError"

text \<open>\<^verbatim>\<open>not lo < i < hi and not np.isnan(i)\<close>, evaluated left to right with short circuits.\<close>

definition not_between :: "real \<Rightarrow> real \<Rightarrow> cell \<Rightarrow> exn + bool" where
  "not_between lo hi i =
     and_then (float_lt_cell lo i) (\<lambda>a.
     and_then (if a then cell_lt_float i hi else Inr False) (\<lambda>inside.
       if inside then Inr False else and_then (isnan i) (\<lambda>n. Inr (\<not> n))))"

subsection \<open>Labels of the rows of one metric category\<close>

text \<open>
  \<^verbatim>\<open>c.lower()\<close> of a label: only a string has the method. \<open>name_lower\<close> is
  \<^verbatim>\<open>s.name.lower()\<close>: the name of a column is one string, the name of a row of a multi-level
  index is a tuple.
\<close>

definition label_lower :: "label \<Rightarrow> exn + string" where
  "label_lower c = (case c of StrL s \<Rightarrow> Inr (lower s) | _ \<Rightarrow> Inl AttributeError)"

definition name_lower :: "label list \<Rightarrow> exn + string" where
  "name_lower nm = (case nm of [c] \<Rightarrow> label_lower c | _ \<Rightarrow> Inl AttributeError)"

text \<open>
  \<^verbatim>\<open>self.df.loc[idx[cat, mask], :].index\<close>: the keys of the rows whose first index level is
  \<open>cat\<close> and whose position is set in the boolean mask. A category that labels no row raises
  \<^verbatim>\<open>KeyError\<close>; a mask of the wrong length raises \<^verbatim>\<open>ValueError\<close>.
\<close>

definition loc_category :: "frame \<Rightarrow> string \<Rightarrow> bool list \<Rightarrow> exn + label list list" where
  "loc_category d cat bmask =
     (if [StrL cat] \<notin> set (map (take 1) (index d)) then Inl (KeyError cat)
      else if length bmask \<noteq> len d then Inl (ValueError ''cannot index with a boolean indexer'')
      else Inr (map fst (filter (\<lambda>(k, m). take 1 k = [StrL cat] \<and> m) (zip (index d) bmask))))"

text \<open>\<^verbatim>\<open>[c.lower() in names for c in self.labels]\<close>\<close>

definition label_mask :: "string list \<Rightarrow> label list option \<Rightarrow> exn + bool list" where
  "label_mask nms ls =
     (case ls of
        None \<Rightarrow> Inl TypeError
      | Some cs \<Rightarrow> mapM (\<lambda>c. and_then (label_lower c) (\<lambda>n. Inr (n \<in> set nms))) cs)"

definition category_labels :: "flagger \<Rightarrow> store \<Rightarrow> string \<Rightarrow> string list \<Rightarrow> exn + label list list" where
  "category_labels self st cat nms =
     and_then (label_mask nms (labels self)) (\<lambda>bmask.
       case df self of
         None \<Rightarrow> Inl AttributeError
       | Some r \<Rightarrow> loc_category (st r) cat bmask)"

subsection \<open>The three colouring functions\<close>

definition is_oor_diff :: "cell \<Rightarrow> exn + bool" where
  "is_oor_diff i = not_between (- 0.1) 0.1 i"

definition color_diff :: "flagger \<Rightarrow> store \<Rightarrow> series \<Rightarrow> exn + string list" where
  "color_diff self st s =
     (if label_type self = Some Index_layout then
        and_then (category_labels self st ''Group Fairness'' diffs_list) (\<lambda>lbls.
          mapM (\<lambda>i. if name s \<in> set lbls
                     then and_then (is_oor_diff i) (\<lambda>b. Inr (if b then flag_style self else ''''))
                     else Inr '''') (vals s))
      else
        (let lbls = diffs_list in
          mapM (\<lambda>i. and_then (name_lower (name s)) (\<lambda>n.
                     if n \<in> set lbls
                     then and_then (is_oor_diff i) (\<lambda>b. Inr (if b then flag_style self else ''''))
                     else Inr '''')) (vals s)))"

text \<open>
  \<^verbatim>\<open>(n in lb_low and i > 0.2) or (n in lb_high and i < 0.8) and not np.isnan(i)\<close>:
  \<^verbatim>\<open>and\<close> binds tighter than \<^verbatim>\<open>or\<close>.
\<close>

definition is_oor_st :: "'n list \<Rightarrow> 'n list \<Rightarrow> 'n \<Rightarrow> cell \<Rightarrow> exn + bool" where
  "is_oor_st lb_low lb_high n i =
     and_then (if n \<in> set lb_low then cell_gt_float i 0.2 else Inr False) (\<lambda>a.
       if a then Inr True
       else and_then (if n \<in> set lb_high then cell_lt_float i 0.8 else Inr False) (\<lambda>b.
         if b then and_then (isnan i) (\<lambda>nan. Inr (\<not> nan)) else Inr False))"

definition color_st :: "flagger \<Rightarrow> store \<Rightarrow> series \<Rightarrow> exn + string list" where
  "color_st self st s =
     (if label_type self = Some Index_layout then
        and_then (category_labels self st ''Individual Fairness'' stats_high) (\<lambda>lb_high.
        and_then (category_labels self st ''Individual Fairness'' stats_low) (\<lambda>lb_low.
          mapM (\<lambda>i. and_then (is_oor_st lb_low lb_high (name s) i)
                       (\<lambda>b. Inr (if b then flag_style self else ''''))) (vals s)))
      else
        (let lb_high = stats_high; lb_low = stats_low in
          mapM (\<lambda>i. and_then (name_lower (name s)) (\<lambda>n.
                     and_then (is_oor_st lb_low lb_high n i)
                       (\<lambda>b. Inr (if b then flag_style self else '''')))) (vals s)))"

definition is_oor_ratio :: "cell \<Rightarrow> exn + bool" where
  "is_oor_ratio i = not_between 0.8 1.2 i"

definition color_ratio :: "flagger \<Rightarrow> store \<Rightarrow> series \<Rightarrow> exn + string list" where
  "color_ratio self st s =
     (if label_type self = Some Index_layout then
        and_then (category_labels self st ''Group Fairness'' ratios) (\<lambda>lbls.
          mapM (\<lambda>i. if name s \<in> set lbls
                     then and_then (is_oor_ratio i) (\<lambda>b. Inr (if b then flag_style self else ''''))
                     else Inr '''') (vals s))
      else
        (let lbls = ratios in
          mapM (\<lambda>i. and_then (name_lower (name s)) (\<lambda>n.
                     if n \<in> set lbls
                     then and_then (is_oor_ratio i) (\<lambda>b. Inr (if b then flag_style self else ''''))
                     else Inr '''')) (vals s)))"

text \<open>
  A cell is flagged by a colouring pass when the pass returns and gives the cell a style.
\<close>

definition flagged :: "exn + string list \<Rightarrow> nat \<Rightarrow> bool" where
  "flagged res j = (case res of Inl _ \<Rightarrow> False | Inr clr \<Rightarrow> j < length clr \<and> clr ! j \<noteq> '''')"

subsection \<open>Where the measure names are: \<^verbatim>\<open>set_measure_labels\<close>\<close>

text \<open>
  \<^verbatim>\<open>df.index.get_level_values(1)\<close> raises on an index of one level. The level is an
  \<^verbatim>\<open>Int64Index\<close> when it holds integers. Every row key of a frame has one label per level.
\<close>

definition get_level_values :: "frame \<Rightarrow> nat \<Rightarrow> exn + label list" where
  "get_level_values d i =
     (if i < length (names d) then Inr (map (\<lambda>k. k ! i) (index d)) else Inl IndexError)"

definition is_Int64Index :: "label list \<Rightarrow> bool" where
  "is_Int64Index ls = (ls \<noteq> [] \<and> list_all (\<lambda>l. case l of IntL _ \<Rightarrow> True | _ \<Rightarrow> False) ls)"

definition set_measure_labels :: "frame \<Rightarrow> label list \<times> layout" where
  "set_measure_labels d =
     (case get_level_values d 1 of
        Inr ls \<Rightarrow> if is_Int64Index ls then (map StrL (columns d), Columns_layout)
                  else (ls, Index_layout)
      | Inl _ \<Rightarrow> (map StrL (columns d), Columns_layout))"

subsection \<open>\<^verbatim>\<open>reset_index(inplace=True)\<close>\<close>

fun str_nat :: "nat \<Rightarrow> string" where
  "str_nat n = (if n < 10 then [''0123456789'' ! n]
                else str_nat (n div 10) @ [''0123456789'' ! (n mod 10)])"

definition cell_of_label :: "label \<Rightarrow> cell" where
  "cell_of_label l = (case l of IntL n \<Rightarrow> Num (of_int n) | FloatL x \<Rightarrow> Num x | StrL s \<Rightarrow> Str s | NaNL \<Rightarrow> NaN)"

text \<open>\<^verbatim>\<open>df.insert(loc, name, value)\<close> refuses a name that is a column already.\<close>

definition insert_col :: "frame \<Rightarrow> nat \<Rightarrow> string \<Rightarrow> cell list \<Rightarrow> exn + frame" where
  "insert_col d loc nm v =
     (if nm \<in> set (columns d) then Inl (ValueError (''cannot insert '' @ nm @ '', already exists''))
      else Inr (d\<lparr>cols := take loc (cols d) @ [(nm, v)] @ drop loc (cols d)\<rparr>))"

text \<open>
  The names under which the index levels become columns: the level's name, or \<^verbatim>\<open>index\<close>
  (\<^verbatim>\<open>level_0\<close> when \<^verbatim>\<open>index\<close> is taken) for a plain index, \<^verbatim>\<open>level_i\<close> for level \<open>i\<close> of
  a multi-level index.
\<close>

definition level_names :: "frame \<Rightarrow> string list" where
  "level_names d =
     (case names d of
        [n] \<Rightarrow> [case n of Some s \<Rightarrow> s
                | None \<Rightarrow> if ''index'' \<in> set (columns d) then ''level_0'' else ''index'']
      | ns \<Rightarrow> map (\<lambda>(i, n). case n of Some s \<Rightarrow> s | None \<Rightarrow> ''level_'' @ str_nat i)
                (zip [0..<length ns] ns))"

text \<open>
  The levels are inserted at the front one after the other, the last level first, into the
  object itself; an insertion that is refused leaves the earlier ones in place.
\<close>

fun insert_levels :: "frame \<Rightarrow> (string \<times> cell list) list \<Rightarrow> exn option \<times> frame" where
  "insert_levels d [] = (None, d)"
| "insert_levels d ((nm, v) # lvs) =
     (case insert_col d 0 nm v of
        Inl e \<Rightarrow> (Some e, d)
      | Inr d' \<Rightarrow> insert_levels d' lvs)"

definition reset_index :: "frame \<Rightarrow> exn option \<times> frame" where
  "reset_index d =
     (let lvs = zip (level_names d)
                    (map (\<lambda>i. map (\<lambda>k. cell_of_label (k ! i)) (index d)) [0..<length (names d)])
      in case insert_levels d (rev lvs) of
           (Some e, d') \<Rightarrow> (Some e, d')
         | (None, d') \<Rightarrow> (None, d'\<lparr>names := [None], index := RangeIndex (len d)\<rparr>))"

subsection \<open>The Styler\<close>

text \<open>
  A Styler keeps a reference to the frame, the caption, the precision and the colouring
  functions registered with \<^verbatim>\<open>apply\<close>, which run when the table is rendered. The Styler
  cannot be built on a frame whose index or columns repeat a key.
\<close>

datatype color_pass = Color_diff | Color_ratio | Color_st

record styler =
  data :: nat
  caption_text :: string
  todo :: "(color_pass \<times> nat) list"
  precision :: pyval

record html =
  html_caption :: string
  html_precision :: pyval
  html_table :: frame
  html_styles :: "string list list list"

datatype flag_result = Styled styler | HTML html

definition style :: "store \<Rightarrow> nat \<Rightarrow> exn + styler" where
  "style st r =
     (if \<not> distinct (index (st r)) \<or> \<not> distinct (columns (st r))
      then Inl (ValueError ''style is not supported for non-unique indices.'')
      else Inr \<lparr>data = r, caption_text = '''', todo = [], precision = PyInt 6\<rparr>)"

definition rows_of :: "frame \<Rightarrow> series list" where
  "rows_of d = map (\<lambda>(k, j). \<lparr>name = k, vals = map (\<lambda>c. snd c ! j) (cols d)\<rparr>)
                   (zip (index d) [0..<len d])"

definition columns_of :: "frame \<Rightarrow> series list" where
  "columns_of d = map (\<lambda>(c, v). \<lparr>name = [StrL c], vals = v\<rparr>) (cols d)"

definition run_pass :: "flagger \<Rightarrow> store \<Rightarrow> color_pass \<Rightarrow> series \<Rightarrow> exn + string list" where
  "run_pass self st p s =
     (case p of
        Color_diff \<Rightarrow> color_diff self st s
      | Color_ratio \<Rightarrow> color_ratio self st s
      | Color_st \<Rightarrow> color_st self st s)"

text \<open>
  Rendering runs each registered function over the columns (\<^verbatim>\<open>axis=0\<close>) or over the rows
  (\<^verbatim>\<open>axis=1\<close>) of the frame; the result keeps the styles of each pass, one list per series.
\<close>

definition render :: "flagger \<Rightarrow> store \<Rightarrow> styler \<Rightarrow> exn + html" where
  "render self st sty =
     and_then
       (mapM (\<lambda>(p, axis). mapM (run_pass self st p)
                 (if axis = 0 then columns_of (st (data sty)) else rows_of (st (data sty))))
             (todo sty))
       (\<lambda>styles. Inr \<lparr>html_caption = caption_text sty, html_precision = precision sty,
                       html_table = st (data sty), html_styles = styles\<rparr>)"

subsection \<open>\<^verbatim>\<open>apply_flag\<close>\<close>

text \<open>
  The result is the value returned or the exception raised, together with the instance and
  the store as the call leaves them.
\<close>

definition finish_flag ::
  "flagger \<Rightarrow> store \<Rightarrow> styler \<Rightarrow> pyval \<Rightarrow> bool \<Rightarrow> (exn + flag_result) \<times> flagger \<times> store" where
  "finish_flag self st styled sig_fig as_styler =
     (let styled = styled\<lparr>precision := sig_fig\<rparr>
      in if as_styler then (Inr (Styled styled), self, st)
         else (case render self st styled of
                 Inl e \<Rightarrow> (Inl e, self, st)
               | Inr h \<Rightarrow> (Inr (HTML h), self, st)))"

definition apply_flag ::
  "flagger \<Rightarrow> store \<Rightarrow> nat \<Rightarrow> string option \<Rightarrow> pyval \<Rightarrow> bool
     \<Rightarrow> (exn + flag_result) \<times> flagger \<times> store" where
  "apply_flag self st dfr caption sig_fig as_styler =
     (let caption = (case caption of None \<Rightarrow> ''Fairness Measures'' | Some c \<Rightarrow> c) in
      if \<not> isinstance_int sig_fig \<or> isinstance_bool sig_fig
      then (Inl (ValueError ''Invalid value of significant figure''), self, st)
      else
        let self = reset self;
            self = self\<lparr>df := Some dfr\<rparr>;
            (ls, lt) = set_measure_labels (st dfr);
            self = self\<lparr>labels := Some ls, label_type := Some lt\<rparr>
        in if lt = Index_layout then
             (case style st dfr of
                Inl e \<Rightarrow> (Inl e, self, st)
              | Inr styled \<Rightarrow>
                  finish_flag self st
                    (styled\<lparr>caption_text := caption,
                            todo := [(Color_diff, 1), (Color_ratio, 1), (Color_st, 1)]\<rparr>)
                    sig_fig as_styler)
           else
             (let (err, st) =
                    (if length (remdups (index (st dfr))) < len (st dfr)
                     then (case reset_index (st dfr) of (e, d) \<Rightarrow> (e, st(dfr := d)))
                     else (None, st))
              in case err of
                   Some e \<Rightarrow> (Inl e, self, st)
                 | None \<Rightarrow>
                     (case style st dfr of
                        Inl e \<Rightarrow> (Inl e, self, st)
                      | Inr styled \<Rightarrow>
                          finish_flag self st
                            (styled\<lparr>caption_text := caption,
                                    todo := [(Color_diff, 0), (Color_ratio, 0), (Color_st, 0)]\<rparr>)
                            sig_fig as_styler)))"

text \<open>\<^verbatim>\<open>flag(df, caption, sig_fig, as_styler)\<close> builds a fresh Flagger and applies it.\<close>

definition new_flagger :: flagger where
  "new_flagger = reset \<lparr>df = None, labels = None, label_type = None,
                        flag_type = '''', flag_color = ''''\<rparr>"

definition flag :: "store \<Rightarrow> nat \<Rightarrow> string option \<Rightarrow> pyval \<Rightarrow> bool \<Rightarrow> (exn + flag_result) \<times> store" where
  "flag st dfr caption sig_fig as_styler =
     (case apply_flag new_flagger st dfr caption sig_fig as_styler of (res, _, st') \<Rightarrow> (res, st'))"

subsection \<open>Example frames\<close>

definition ppv_frame :: frame where
  "ppv_frame = \<lparr>names = [None], index = RangeIndex 3,
                 cols = [(''Feature Value'', [Str ''a'', Str ''b'', Str ''c'']),
                         (''PPV Ratio'', [Num 0.7, Num 1.0, Num 1.3])]\<rparr>"

definition dup_frame :: frame where
  "dup_frame = \<lparr>names = [None], index = [[IntL 0], [IntL 0]],
                 cols = [(''PPV Ratio'', [Num 0.7, Num 1.0])]\<rparr>"

definition summary_frame :: frame where
  "summary_frame = \<lparr>names = [Some ''Metric'', Some ''Measure''],
     index = [[StrL ''Group Fairness'', StrL ''Statistical Parity Difference''],
              [StrL ''Group Fairness'', StrL ''Disparate Impact Ratio''],
              [StrL ''Group Fairness'', StrL ''Equalized Odds Difference''],
              [StrL ''Group Fairness'', StrL ''Balanced Accuracy Ratio''],
              [StrL ''Individual Fairness'', StrL ''Consistency Score''],
              [StrL ''Individual Fairness'', StrL ''Between-Group Gen. Entropy Error''],
              [StrL ''Model Performance'', StrL ''Accuracy'']],
     cols = [(''Value'', [Num 0.5, Num 0.5, Num 0.5, Num 0.5, Num 0.5, Num 0.5, Num 0.5])]\<rparr>"

subsection \<open>A bound Flagger and the measure a series belongs to\<close>

text \<open>
  \<open>bound_to\<close> is the state of the instance after \<^verbatim>\<open>apply_flag\<close> has bound the frame at
  \<open>r\<close>. The measure name of a series is the column name in the columns layout and the second
  index level of the row in the index layout, whose first level is the metric category.
\<close>

definition bound_to :: "flagger \<Rightarrow> store \<Rightarrow> nat \<Rightarrow> bool" where
  "bound_to self st r =
     (df self = Some r
      \<and> labels self = Some (fst (set_measure_labels (st r)))
      \<and> label_type self = Some (snd (set_measure_labels (st r))))"

definition styled_series :: "flagger \<Rightarrow> store \<Rightarrow> nat \<Rightarrow> series list" where
  "styled_series self st r =
     (if label_type self = Some Index_layout then rows_of (st r) else columns_of (st r))"

definition measure_of :: "flagger \<Rightarrow> series \<Rightarrow> string option" where
  "measure_of self s =
     (if label_type self = Some Index_layout
      then (case name s of _ # StrL m # _ \<Rightarrow> Some m | _ \<Rightarrow> None)
      else (case name s of [StrL c] \<Rightarrow> Some c | _ \<Rightarrow> None))"

definition category_of :: "series \<Rightarrow> string option" where
  "category_of s = (case name s of StrL c # _ \<Rightarrow> Some c | _ \<Rightarrow> None)"

definition numeric :: "cell \<Rightarrow> bool" where
  "numeric c = (case c of Str _ \<Rightarrow> False | _ \<Rightarrow> True)"

text \<open>The measure labels of an index layout are text.\<close>

definition text_labels :: "flagger \<Rightarrow> bool" where
  "text_labels self =
     (case labels self of
        None \<Rightarrow> False
      | Some ls \<Rightarrow> list_all (\<lambda>l. case l of StrL _ \<Rightarrow> True | _ \<Rightarrow> False) ls)"

definition bound_flagger :: "frame \<Rightarrow> flagger" where
  "bound_flagger d = new_flagger\<lparr>df := Some 0,
                                  labels := Some (fst (set_measure_labels d)),
                                  label_type := Some (snd (set_measure_labels d))\<rparr>"

definition fairness_frame :: frame where
  "fairness_frame = \<lparr>names = [None], index = RangeIndex 1,
                      cols = [(''Statistical Parity Difference'', [Num 0.5]),
                              (''Disparate Impact Ratio'', [Num 0.5]),
                              (''Equalized Odds Difference'', [Num 0.5]),
                              (''Equalized Odds Ratio'', [Num 0.5])]\<rparr>"

definition filed_under :: "flagger \<Rightarrow> series \<Rightarrow> string \<Rightarrow> bool" where
  "filed_under self s cat =
     (label_type self = Some Index_layout \<longrightarrow> category_of s = Some cat \<and> text_labels self)"

definition dup_store :: store where
  "dup_store = (\<lambda>r. dup_frame)"

definition fairness_store :: store where
  "fairness_store = (\<lambda>r. fairness_frame)"

definition summary_store :: store where
  "summary_store = (\<lambda>r. summary_frame)"

text \<open>The exceptions that a colouring pass raises.\<close>

definition pass_exn :: "exn \<Rightarrow> bool" where
  "pass_exn e = (e = TypeError \<or> e = AttributeError \<or> (\<exists>c. e = KeyError c)
                 \<or> e = ValueError ''cannot index with a boolean indexer'')"

definition consistency_row :: series where
  "consistency_row = \<lparr>name = [StrL ''Individual Fairness'', StrL ''Consistency Score''],
                        vals = [Num 0.5]\<rparr>"

definition entropy_row :: series where
  "entropy_row = \<lparr>name = [StrL ''Individual Fairness'', StrL ''Between-Group Gen. Entropy Error''],
                    vals = [Num 0.5]\<rparr>"

definition accuracy_row :: series where
  "accuracy_row = \<lparr>name = [StrL ''Model Performance'', StrL ''Accuracy''], vals = [Num 0.5]\<rparr>"

section \<open>The Stratified Group Applier\<close>

text \<open>
  Both appliers are decorated with \<^verbatim>\<open>format_errwarn\<close> (in \<^verbatim>\<open>utils\<close>), which reports the two
  ledgers and hands on the table. The functions below are the decorated bodies: they return
  the table together with the ledger of exceptions and the ledger of warnings, as the source
  does. The frames handed to them have pairwise different column names.

  A metric function returns a dict of named numbers or raises, and it may emit warnings
  while it runs: its outcome is the list of warnings and the result or the exception.
\<close>

type_synonym metric_record = "(string \<times> cell) list"

type_synonym warning = string

type_synonym 'a outcome = "warning list \<times> (exn + 'a)"

record ledger =
  errs :: "string \<rightharpoonup> exn"
  warns :: "string \<rightharpoonup> warning list"
  res :: "frame list"

definition new_ledger :: ledger where
  "new_ledger = \<lparr>errs = Map.empty, warns = Map.empty, res = []\<rparr>"

fun foldM :: "('a \<Rightarrow> 's \<Rightarrow> exn + 's) \<Rightarrow> 'a list \<Rightarrow> 's \<Rightarrow> exn + 's" where
  "foldM step [] s = Inr s"
| "foldM step (x # xs) s = (case step x s of Inl e \<Rightarrow> Inl e | Inr s' \<Rightarrow> foldM step xs s')"

subsection \<open>Frame operations\<close>

text \<open>\<^verbatim>\<open>df[f]\<close>: the column named \<open>f\<close>, or \<^verbatim>\<open>KeyError\<close>.\<close>

definition getcol :: "frame \<Rightarrow> string \<Rightarrow> exn + cell list" where
  "getcol d f = (case map_of (cols d) f of None \<Rightarrow> Inl (KeyError f) | Some v \<Rightarrow> Inr v)"

text \<open>\<^verbatim>\<open>df[c] = v\<close>: replaces the column, or appends it as the last one.\<close>

definition setcol :: "frame \<Rightarrow> string \<Rightarrow> cell list \<Rightarrow> frame" where
  "setcol d c v =
     (if c \<in> set (columns d)
      then d\<lparr>cols := map (\<lambda>(k, w). if k = c then (k, v) else (k, w)) (cols d)\<rparr>
      else d\<lparr>cols := cols d @ [(c, v)]\<rparr>)"

text \<open>The rows at which a boolean mask is set.\<close>

definition pick :: "'a list \<Rightarrow> bool list \<Rightarrow> 'a list" where
  "pick xs m = map fst (filter snd (zip xs m))"

definition take_rows :: "frame \<Rightarrow> bool list \<Rightarrow> frame" where
  "take_rows d m = d\<lparr>index := pick (index d) m,
                       cols := map (\<lambda>(c, v). (c, pick v m)) (cols d)\<rparr>"

text \<open>\<^verbatim>\<open>df.loc[mask, c] = x\<close>\<close>

definition loc_set :: "frame \<Rightarrow> bool list \<Rightarrow> string \<Rightarrow> cell \<Rightarrow> frame" where
  "loc_set d m c x =
     d\<lparr>cols := map (\<lambda>(k, w). if k = c then (k, map (\<lambda>(y, b). if b then x else y) (zip w m))
                               else (k, w)) (cols d)\<rparr>"

text \<open>\<^verbatim>\<open>pd.DataFrame(columns=cs)\<close>: no rows.\<close>

definition DataFrame_columns :: "string list \<Rightarrow> frame" where
  "DataFrame_columns cs = \<lparr>names = [None], index = [], cols = map (\<lambda>c. (c, [])) cs\<rparr>"

text \<open>\<^verbatim>\<open>pd.DataFrame(record, index=[0])\<close>: one row from a dict of scalars.\<close>

definition DataFrame_record :: "metric_record \<Rightarrow> frame" where
  "DataFrame_record r = \<lparr>names = [None], index = [[IntL 0]], cols = map (\<lambda>(k, x). (k, [x])) r\<rparr>"

definition rename_column :: "frame \<Rightarrow> string \<Rightarrow> string \<Rightarrow> frame" where
  "rename_column d old new = d\<lparr>cols := map (\<lambda>(k, v). (if k = old then new else k, v)) (cols d)\<rparr>"

text \<open>\<^verbatim>\<open>df.reset_index()\<close>: the same on a copy.\<close>

definition reset_index_copy :: "frame \<Rightarrow> exn + frame" where
  "reset_index_copy d = (case reset_index d of (Some e, _) \<Rightarrow> Inl e | (None, d') \<Rightarrow> Inr d')"

text \<open>
  \<^verbatim>\<open>pd.concat(frames, ignore_index=True)\<close> of a non-empty list: frames with the same column
  list are stacked; otherwise the columns are the union in order of first appearance, a
  missing cell is NaN, and a frame that repeats a column name cannot be aligned.
\<close>

definition unique :: "'a list \<Rightarrow> 'a list" where
  "unique xs = rev (remdups (rev xs))"

definition concat_frames :: "frame list \<Rightarrow> exn + frame" where
  "concat_frames fs =
     (let n = sum_list (map len fs) in
      if fs = [] then Inl (ValueError ''No objects to concatenate'')
      else if list_all (\<lambda>d. columns d = columns (hd fs)) fs
      then Inr \<lparr>names = [None], index = RangeIndex n,
                cols = map (\<lambda>i. (columns (hd fs) ! i, concat (map (\<lambda>d. snd (cols d ! i)) fs)))
                           [0..<length (columns (hd fs))]\<rparr>
      else if list_ex (\<lambda>d. \<not> distinct (columns d)) fs
      then Inl (Exc ''InvalidIndexError'')
      else Inr \<lparr>names = [None], index = RangeIndex n,
                cols = map (\<lambda>c. (c, concat (map (\<lambda>d. case map_of (cols d) c of
                                                        Some v \<Rightarrow> v
                                                      | None \<Rightarrow> replicate (len d) NaN) fs)))
                           (unique (concat (map columns fs)))\<rparr>)"

subsection \<open>\<^verbatim>\<open>groupby(f).apply\<close>\<close>

text \<open>
  The groups of a column are its distinct values other than NaN in sorted order, numbers
  before strings; each group is the frame of the rows with that value.
\<close>

definition group_keys :: "cell list \<Rightarrow> cell list" where
  "group_keys v = map Num (sort (remdups (concat (map (\<lambda>c. case c of Num x \<Rightarrow> [x] | _ \<Rightarrow> []) v))))
                @ map Str (sort (remdups (concat (map (\<lambda>c. case c of Str s \<Rightarrow> [s] | _ \<Rightarrow> []) v))))"

definition groupby :: "frame \<Rightarrow> string \<Rightarrow> exn + (cell \<times> frame) list" where
  "groupby d f =
     and_then (getcol d f) (\<lambda>v.
       Inr (map (\<lambda>k. (k, take_rows d (map (\<lambda>c. c = k) v))) (group_keys v)))"

text \<open>
  The function runs on one group after the other; the first exception ends the whole
  \<^verbatim>\<open>apply\<close>, and the warnings emitted so far stay recorded.
\<close>

fun apply_groups ::
  "(frame \<Rightarrow> 'a \<Rightarrow> metric_record outcome) \<Rightarrow> 'a \<Rightarrow> (cell \<times> frame) list
     \<Rightarrow> (cell \<times> metric_record) list outcome" where
  "apply_groups func args [] = ([], Inr [])"
| "apply_groups func args ((k, x) # gs) =
     (case func x args of
        (w, Inl e) \<Rightarrow> (w, Inl e)
      | (w, Inr r) \<Rightarrow>
          (case apply_groups func args gs of
             (w', Inl e) \<Rightarrow> (w @ w', Inl e)
           | (w', Inr rs) \<Rightarrow> (w @ w', Inr ((k, r) # rs))))"

definition label_of_cell :: "cell \<Rightarrow> label" where
  "label_of_cell c = (case c of Num x \<Rightarrow> FloatL x | Str s \<Rightarrow> StrL s | NaN \<Rightarrow> NaNL)"

text \<open>
  The results \<^verbatim>\<open>pd.Series(func(x, *args))\<close> of the groups are put together by pandas: when all
  have the same keys in the same order they are the rows of a frame indexed by the group
  value; otherwise they are chained into one series with the index (group value, key), which
  \<^verbatim>\<open>reset_index\<close> turns into a frame with the value column \<open>0\<close>. Without any group the result
  is a frame without columns and rows.
\<close>

definition wrap_applied :: "string \<Rightarrow> (cell \<times> metric_record) list \<Rightarrow> frame" where
  "wrap_applied f rs =
     (case rs of
        [] \<Rightarrow> \<lparr>names = [None], index = [], cols = []\<rparr>
      | (k0, r0) # _ \<Rightarrow>
          if list_all (\<lambda>(k, r). map fst r = map fst r0) rs
          then \<lparr>names = [Some f], index = map (\<lambda>(k, r). [label_of_cell k]) rs,
                cols = map (\<lambda>i. (fst (r0 ! i), map (\<lambda>(k, r). snd (r ! i)) rs)) [0..<length r0]\<rparr>
          else \<lparr>names = [Some f, None],
                index = concat (map (\<lambda>(k, r). map (\<lambda>(n, x). [label_of_cell k, StrL n]) r) rs),
                cols = [(''0'', concat (map (\<lambda>(k, r). map snd r) rs))]\<rparr>)"

definition groupby_apply ::
  "frame \<Rightarrow> string \<Rightarrow> (frame \<Rightarrow> 'a \<Rightarrow> metric_record outcome) \<Rightarrow> 'a \<Rightarrow> frame outcome" where
  "groupby_apply d f func args =
     (case groupby d f of
        Inl e \<Rightarrow> ([], Inl e)
      | Inr grp \<Rightarrow>
          (case apply_groups func args grp of
             (w, Inl e) \<Rightarrow> (w, Inl e)
           | (w, Inr rs) \<Rightarrow> (w, Inr (wrap_applied f rs))))"

subsection \<open>\<^verbatim>\<open>__apply_featureGroups\<close>\<close>

text \<open>
  One turn of the loop over the features. The \<^verbatim>\<open>try\<close> encloses the grouping and the whole
  \<^verbatim>\<open>apply\<close>; the statements after it are outside.
\<close>

definition feature_step ::
  "frame \<Rightarrow> (frame \<Rightarrow> 'a \<Rightarrow> metric_record outcome) \<Rightarrow> 'a \<Rightarrow> string \<Rightarrow> ledger \<Rightarrow> exn + ledger" where
  "feature_step d func args f s =
     (case groupby_apply d f func args of
        (w, Inl e) \<Rightarrow> Inr (s\<lparr>errs := (errs s)(f \<mapsto> e)\<rparr>)
      | (w, Inr grp_res) \<Rightarrow>
          (let s = (if length w > 0 then s\<lparr>warns := (warns s)(f \<mapsto> w)\<rparr> else s) in
           and_then (reset_index_copy grp_res) (\<lambda>grp_res.
           let grp_res = rename_column grp_res f ''Feature Value'' in
           and_then (insert_col grp_res 0 ''Feature Name'' (replicate (len grp_res) (Str f)))
             (\<lambda>grp_res. Inr (s\<lparr>res := res s @ [grp_res]\<rparr>)))))"

definition finish_sweep :: "ledger \<Rightarrow> exn + frame \<times> (string \<rightharpoonup> exn) \<times> (string \<rightharpoonup> warning list)" where
  "finish_sweep s =
     and_then (if length (res s) = 0
               then Inr (DataFrame_columns [''Feature Name'', ''Feature Value''])
               else concat_frames (res s))
       (\<lambda>results. Inr (results, errs s, warns s))"

definition apply_featureGroups ::
  "string list \<Rightarrow> frame \<Rightarrow> (frame \<Rightarrow> 'a \<Rightarrow> metric_record outcome) \<Rightarrow> 'a
     \<Rightarrow> exn + frame \<times> (string \<rightharpoonup> exn) \<times> (string \<rightharpoonup> warning list)" where
  "apply_featureGroups features d func args =
     and_then (foldM (feature_step d func args) features new_ledger) finish_sweep"

text \<open>
  The metric function raises on a partition of \<open>f\<close>: \<open>f\<close> is a column and one of its groups
  makes the function raise.
\<close>

definition raises_on_partition ::
  "frame \<Rightarrow> (frame \<Rightarrow> 'a \<Rightarrow> metric_record outcome) \<Rightarrow> 'a \<Rightarrow> string \<Rightarrow> bool" where
  "raises_on_partition d func args f =
     (case groupby d f of
        Inl _ \<Rightarrow> False
      | Inr grp \<Rightarrow> list_ex (\<lambda>(k, x). isl (snd (func x args))) grp)"

text \<open>The computation of feature \<open>f\<close> fails: the grouping or the function raises.\<close>

definition feature_fails ::
  "frame \<Rightarrow> (frame \<Rightarrow> 'a \<Rightarrow> metric_record outcome) \<Rightarrow> 'a \<Rightarrow> string \<Rightarrow> bool" where
  "feature_fails d func args f = isl (snd (groupby_apply d f func args))"

text \<open>The rows of a result table that belong to feature \<open>f\<close>.\<close>

definition rows_for :: "frame \<Rightarrow> string \<Rightarrow> nat" where
  "rows_for d f =
     (case map_of (cols d) ''Feature Name'' of
        None \<Rightarrow> 0
      | Some v \<Rightarrow> length (filter (\<lambda>c. c = Str f) v))"

subsection \<open>\<^verbatim>\<open>__apply_biasGroups\<close>\<close>

text \<open>
  \<^verbatim>\<open>astype(str)\<close> turns NaN into the text \<^verbatim>\<open>nan\<close>; how a float is printed is a parameter
  \<open>fmt\<close>. A series handed to the two-group metric function is a list of values with their
  index keys, here the values of the indicator column.
\<close>

type_synonym indexed_series = "(label list \<times> cell) list"

type_synonym bias_func = "indexed_series \<Rightarrow> indexed_series \<Rightarrow> string \<Rightarrow> int \<Rightarrow> metric_record outcome"

definition astype_str :: "(real \<Rightarrow> string) \<Rightarrow> cell \<Rightarrow> cell" where
  "astype_str fmt c = (case c of Str s \<Rightarrow> Str s | NaN \<Rightarrow> Str ''nan'' | Num x \<Rightarrow> Str (fmt x))"

definition str_values :: "cell list \<Rightarrow> string list" where
  "str_values v = concat (map (\<lambda>c. case c of Str s \<Rightarrow> [s] | _ \<Rightarrow> []) v)"

definition nunique :: "cell list \<Rightarrow> nat" where
  "nunique v = length (remdups (filter (\<lambda>c. c \<noteq> NaN) v))"

text \<open>\<^verbatim>\<open>df.set_index(c)\<close>: the column becomes the index.\<close>

definition set_index :: "frame \<Rightarrow> string \<Rightarrow> exn + frame" where
  "set_index d c =
     and_then (getcol d c) (\<lambda>v.
       Inr (d\<lparr>names := [Some c], index := map (\<lambda>x. [label_of_cell x]) v,
              cols := filter (\<lambda>(k, w). k \<noteq> c) (cols d)\<rparr>))"

text \<open>\<^verbatim>\<open>subset[c]\<close>: a column as a series with the frame's index.\<close>

definition getitem_series :: "frame \<Rightarrow> string \<Rightarrow> exn + indexed_series" where
  "getitem_series d c = and_then (getcol d c) (\<lambda>v. Inr (zip (index d) v))"

definition pa_name :: string where
  "pa_name = ''prtc_attr''"

text \<open>
  The indicator column for the value \<open>v\<close> of feature \<open>f\<close>: 1 where the feature is \<open>v\<close>, 0
  elsewhere, NaN where the feature is missing (unless \<open>v\<close> is the missing value itself).
\<close>

definition mark_group :: "frame \<Rightarrow> string \<Rightarrow> string \<Rightarrow> exn + frame" where
  "mark_group d f v =
     (let d = setcol d pa_name (replicate (len d) (Num 0)) in
      and_then (getcol d f) (\<lambda>fv.
      let d = loc_set d (map (\<lambda>c. c = Str v) fv) pa_name (Num 1) in
      if v \<noteq> ''nan''
      then and_then (getcol d f) (\<lambda>fv. Inr (loc_set d (map (\<lambda>c. c = Str ''nan'') fv) pa_name NaN))
      else Inr d))"

text \<open>
  One turn of the inner loop, for the value \<open>v\<close> of feature \<open>f\<close>. The state is the frame,
  which the loop modifies, and the ledger. The \<^verbatim>\<open>try\<close> encloses the call of the metric
  function with its arguments, and nothing else; the call passes \<^verbatim>\<open>priv_grp=1\<close>.
\<close>

definition call_metric :: "bias_func \<Rightarrow> frame \<Rightarrow> string \<Rightarrow> string \<Rightarrow> metric_record outcome" where
  "call_metric func sub yt yh =
     (case getitem_series sub yt of
        Inl e \<Rightarrow> ([], Inl e)
      | Inr syt \<Rightarrow>
          (case getitem_series sub yh of
             Inl e \<Rightarrow> ([], Inl e)
           | Inr syh \<Rightarrow> func syt syh pa_name 1))"

definition value_step ::
  "bias_func \<Rightarrow> string \<Rightarrow> string \<Rightarrow> string \<Rightarrow> string \<Rightarrow> frame \<times> ledger \<Rightarrow> exn + frame \<times> ledger" where
  "value_step func yt yh f v ds =
     (case ds of (d, s) \<Rightarrow>
      and_then (mark_group d f v) (\<lambda>d.
      and_then (getcol d pa_name) (\<lambda>pa.
      if nunique pa = 1 then Inr (d, s)
      else
        and_then (getitem_list d [pa_name, yt, yh]) (\<lambda>sel.
        and_then (set_index (take_rows sel (map (\<lambda>c. c \<noteq> NaN) pa)) pa_name) (\<lambda>sub.
          case call_metric func sub yt yh of
            (w, Inl e) \<Rightarrow> Inr (d, s\<lparr>errs := (errs s)(f \<mapsto> e)\<rparr>)
          | (w, Inr grp_res) \<Rightarrow>
              (let s = (if length w > 0 then s\<lparr>warns := (warns s)(f \<mapsto> w)\<rparr> else s);
                   grp_res = DataFrame_record grp_res in
               and_then (insert_col grp_res 0 ''Feature Name'' (replicate (len grp_res) (Str f)))
                 (\<lambda>grp_res.
               and_then (insert_col grp_res 1 ''Feature Value'' (replicate (len grp_res) (Str v)))
                 (\<lambda>grp_res. Inr (d, s\<lparr>res := res s @ [grp_res]\<rparr>)))))))))"

text \<open>One turn of the outer loop: the feature is cast to text, its values are sorted.\<close>

definition bias_feature_step ::
  "(real \<Rightarrow> string) \<Rightarrow> bias_func \<Rightarrow> string \<Rightarrow> string \<Rightarrow> string \<Rightarrow> frame \<times> ledger
     \<Rightarrow> exn + frame \<times> ledger" where
  "bias_feature_step fmt func yt yh f ds =
     (case ds of (d, s) \<Rightarrow>
      and_then (getcol d f) (\<lambda>fv.
      let d = setcol d f (map (astype_str fmt) fv) in
      and_then (getcol d f) (\<lambda>fv.
      let vals = sort (unique (str_values fv)) in
      foldM (value_step func yt yh f) vals (d, s))))"

definition apply_biasGroups ::
  "(real \<Rightarrow> string) \<Rightarrow> string list \<Rightarrow> frame \<Rightarrow> bias_func \<Rightarrow> string \<Rightarrow> string
     \<Rightarrow> exn + frame \<times> (string \<rightharpoonup> exn) \<times> (string \<rightharpoonup> warning list)" where
  "apply_biasGroups fmt features d func yt yh =
     and_then (foldM (bias_feature_step fmt func yt yh) features (d, new_ledger))
       (\<lambda>ds. finish_sweep (snd ds))"

subsection \<open>What an applier returns\<close>

definition results_of :: "exn + frame \<times> 'e \<times> 'w \<Rightarrow> frame option" where
  "results_of r = (case r of Inl _ \<Rightarrow> None | Inr (t, _, _) \<Rightarrow> Some t)"

definition errs_of :: "exn + frame \<times> (string \<rightharpoonup> exn) \<times> 'w \<Rightarrow> (string \<rightharpoonup> exn)" where
  "errs_of r = (case r of Inl _ \<Rightarrow> Map.empty | Inr (_, e, _) \<Rightarrow> e)"

definition warns_of :: "exn + frame \<times> 'e \<times> (string \<rightharpoonup> warning list) \<Rightarrow> (string \<rightharpoonup> warning list)" where
  "warns_of r = (case r of Inl _ \<Rightarrow> Map.empty | Inr (_, _, w) \<Rightarrow> w)"

subsection \<open>Example tables and metric functions\<close>

definition region_frame :: frame where
  "region_frame = \<lparr>names = [None], index = RangeIndex 4,
     cols = [(''region'', [Str ''north'', Str ''south'', Str ''north'', Str ''south'']),
             (''y_true'', [Num 1, Num 0, Num 1, Num 1]),
             (''y_pred'', [Num 1, Num 1, Num 0, Num 1])]\<rparr>"

text \<open>Counts the observations of a partition, and raises on the partition of the south.\<close>

definition count_or_fail :: "frame \<Rightarrow> unit \<Rightarrow> metric_record outcome" where
  "count_or_fail x u =
     (if getcol x ''region'' = Inr (replicate (len x) (Str ''south''))
      then ([], Inl (Exc ''boom''))
      else ([], Inr [(''Obs.'', Num (real (len x)))]))"

subsection \<open>Recording an exception in the ledger\<close>

definition record_err :: "string \<Rightarrow> exn \<Rightarrow> ledger \<Rightarrow> ledger" where
  "record_err f e s = s\<lparr>errs := (errs s)(f \<mapsto> e)\<rparr>"

definition map_result :: "('a \<Rightarrow> 'b) \<Rightarrow> exn + 'a \<Rightarrow> exn + 'b" where
  "map_result f r = (case r of Inl e \<Rightarrow> Inl e | Inr x \<Rightarrow> Inr (f x))"

text \<open>The exception with which the computation of a feature fails.\<close>

definition failure_of ::
  "frame \<Rightarrow> (frame \<Rightarrow> 'a \<Rightarrow> metric_record outcome) \<Rightarrow> 'a \<Rightarrow> string \<Rightarrow> exn" where
  "failure_of d func args f = projl (snd (groupby_apply d f func args))"

text \<open>
  Every frame collected so far starts with the column \<^verbatim>\<open>Feature Name\<close>, which holds
  one feature that satisfies \<open>P\<close>.
\<close>

definition tagged :: "(string \<Rightarrow> bool) \<Rightarrow> frame list \<Rightarrow> bool" where
  "tagged P fs =
     (\<forall>g\<in>set fs. \<exists>h n rest. P h \<and> cols g = (''Feature Name'', replicate n (Str h)) # rest)"


subsection \<open>The scenario of two regions\<close>

text \<open>
  Ten observations, five in the north and five in the south, with any targets and
  predictions. The indicator of the north marks the first five, that of the south the last
  five.
\<close>

definition scenario_frame :: "cell list \<Rightarrow> cell list \<Rightarrow> frame" where
  "scenario_frame yts yhs =
     \<lparr>names = [None], index = RangeIndex 10,
      cols = [(''region'', replicate 5 (Str ''north'') @ replicate 5 (Str ''south'')),
              (''y_true'', yts), (''y_pred'', yhs)]\<rparr>"

definition north_index :: "label list list" where
  "north_index = replicate 5 [FloatL 1] @ replicate 5 [FloatL 0]"

definition south_index :: "label list list" where
  "south_index = replicate 5 [FloatL 0] @ replicate 5 [FloatL 1]"

definition north_row :: frame where
  "north_row = \<lparr>names = [None], index = RangeIndex 1,
                 cols = [(''Feature Name'', [Str ''region'']),
                         (''Feature Value'', [Str ''north'']),
                         (''Selection Ratio'', [Num 1])]\<rparr>"

text \<open>A metric function for the scenario: it raises unless the first observation is marked.\<close>

definition ratio_or_fail :: bias_func where
  "ratio_or_fail a b n p =
     (case a of
        (k, x) # _ \<Rightarrow> if k = [FloatL 1] then ([], Inr [(''Selection Ratio'', Num 1)])
                      else ([], Inl (Exc ''boom''))
      | [] \<Rightarrow> ([], Inl (Exc ''boom'')))"



section \<open>The bias report\<close>

subsection \<open>Collaborators\<close>

text \<open>
  The preprocessing (\<^verbatim>\<open>stratified_preprocess\<close>, \<^verbatim>\<open>y_cols\<close>), the fairness measures of
  \<^verbatim>\<open>aif360\<close> and \<^verbatim>\<open>__fairness_metrics\<close>, the printing of floats and pandas' rounding are
  outside this module: they are the fields of an environment. A measure is called with the
  two series, the name of the indicator and the privileged-group marker. The last five fields
  are what the Cohort Iterator needs: the cohorts of a cohort table, the rows of the inputs
  that belong to one cohort, the tagging of a cohort's table and the stacking of the tables.
\<close>

record ('x, 'y, 'c, 'k) env =
  stratified_preprocess :: "'x \<Rightarrow> 'y \<Rightarrow> 'y \<Rightarrow> string list option \<Rightarrow> exn + frame"
  y_col_names :: "frame \<Rightarrow> string option \<times> string option \<times> string option"
  y_disp_names :: "string \<times> string"
  measure :: "string \<Rightarrow> indexed_series \<Rightarrow> indexed_series \<Rightarrow> string \<Rightarrow> int \<Rightarrow> cell outcome"
  fmt_float :: "real \<Rightarrow> string"
  round_frame :: "pyval \<Rightarrow> frame \<Rightarrow> exn + frame"
  cohort_keys :: "'c \<Rightarrow> 'k list"
  cohort_x :: "'c \<Rightarrow> 'k \<Rightarrow> 'x \<Rightarrow> 'x"
  cohort_y :: "'c \<Rightarrow> 'k \<Rightarrow> 'y \<Rightarrow> 'y"
  cohort_tag :: "'c \<Rightarrow> 'k \<Rightarrow> frame \<Rightarrow> frame"
  cohort_concat :: "frame list \<Rightarrow> exn + frame"

text \<open>
  The named arguments of a report function. A keyword argument is a cohort table or a plain
  Python value.
\<close>

datatype 'c kwarg = Cohorts 'c | Plain pyval

record ('x, 'y, 'c) call =
  arg_X :: 'x
  arg_y_true :: "'y option"
  arg_y_pred :: "'y option"
  arg_features :: "string list option"
  arg_kwargs :: "string \<rightharpoonup> 'c kwarg"

subsection \<open>The two-group metric functions\<close>

text \<open>
  A metric function fills a dict measure by measure, in the order of the source; the first
  measure that raises ends it.
\<close>

fun collect_measures :: "(string \<Rightarrow> cell outcome) \<Rightarrow> string list \<Rightarrow> metric_record outcome" where
  "collect_measures f [] = ([], Inr [])"
| "collect_measures f (n # ns) =
     (case f n of
        (w, Inl e) \<Rightarrow> (w, Inl e)
      | (w, Inr x) \<Rightarrow>
          (case collect_measures f ns of
             (w', Inl e) \<Rightarrow> (w @ w', Inl e)
           | (w', Inr r) \<Rightarrow> (w @ w', Inr ((n, x) # r))))"

definition bias_rep :: "('x, 'y, 'c, 'k) env \<Rightarrow> bias_func" where
  "bias_rep ev y_true y_pred pa priv_grp =
     collect_measures (\<lambda>n. measure ev n y_true y_pred pa priv_grp)
       [''Selection Ratio'', ''PPV Ratio'', ''TPR Ratio'', ''FPR Ratio'',
        ''Selection Diff'', ''PPV Diff'', ''TPR Diff'', ''FPR Diff'']"

definition regression_bias :: "('x, 'y, 'c, 'k) env \<Rightarrow> bias_func" where
  "regression_bias ev y_true y_pred pa priv_grp =
     collect_measures (\<lambda>n. measure ev n y_true y_pred pa priv_grp)
       [''Mean Prediction Ratio'', ''MAE Ratio'',
        ''Mean Prediction Difference'', ''MAE Difference'']"

subsection \<open>\<^verbatim>\<open>__classification_bias_report\<close> and \<^verbatim>\<open>__regression_bias_report\<close>\<close>

text \<open>
  The two bodies differ in the metric function only. The keyword arguments are accepted and
  not used. The decorated applier hands back the table alone.
\<close>

definition stratified_bias_report ::
  "('x, 'y, 'c, 'k) env \<Rightarrow> bias_func \<Rightarrow> ('x, 'y, 'c) call \<Rightarrow> exn + frame" where
  "stratified_bias_report ev func c =
     (case (arg_y_true c, arg_y_pred c) of
        (Some y_true, Some y_pred) \<Rightarrow>
          and_then (stratified_preprocess ev (arg_X c) y_true y_pred (arg_features c)) (\<lambda>d.
            case y_col_names ev d of (yt, yh, yp) \<Rightarrow>
              (let pred_cols = concat (map (\<lambda>n. case n of Some c \<Rightarrow> [c] | None \<Rightarrow> []) [yt, yh, yp]);
                   strat_feats = filter (\<lambda>f. f \<notin> set pred_cols) (columns d)
               in case (yt, yh) of
                    (Some yt, Some yh) \<Rightarrow>
                      and_then (apply_biasGroups (fmt_float ev) strat_feats d func yt yh)
                        (\<lambda>(results, er, wa).
                           sort_report (fst (y_disp_names ev)) (snd (y_disp_names ev)) results)
                  | _ \<Rightarrow> Inl (Exc ''ValidationError: Cannot generate report with undefined targets'')))
      | _ \<Rightarrow> Inl (ValueError ''Cannot assess fairness without both y_true and y_pred''))"

definition classification_bias_report ::
  "('x, 'y, 'c, 'k) env \<Rightarrow> ('x, 'y, 'c) call \<Rightarrow> exn + frame" where
  "classification_bias_report ev c = stratified_bias_report ev (bias_rep ev) c"

definition regression_bias_report ::
  "('x, 'y, 'c, 'k) env \<Rightarrow> ('x, 'y, 'c) call \<Rightarrow> exn + frame" where
  "regression_bias_report ev c = stratified_bias_report ev (regression_bias ev) c"

subsection \<open>The Cohort Iterator\<close>

text \<open>
  Modelled from the spec: the decorator \<^verbatim>\<open>iterate_cohorts\<close> is defined in \<^verbatim>\<open>utils\<close>, which
  is not part of this module. With no cohort table among the keyword arguments the wrapped
  function is called as it is; with one, it is called once for every cohort on the rows of
  that cohort, each table is tagged with its cohort, and the tables are stacked. The other
  keyword arguments are handed on.
\<close>

definition iterate_cohorts ::
  "('x, 'y, 'c, 'k) env \<Rightarrow> (('x, 'y, 'c) call \<Rightarrow> exn + frame) \<Rightarrow> ('x, 'y, 'c) call \<Rightarrow> exn + frame" where
  "iterate_cohorts ev func c =
     (case arg_kwargs c ''cohorts'' of
        Some (Cohorts co) \<Rightarrow>
          and_then
            (mapM (\<lambda>k. and_then
                          (func (c\<lparr>arg_X := cohort_x ev co k (arg_X c),
                                   arg_y_true := map_option (cohort_y ev co k) (arg_y_true c),
                                   arg_y_pred := map_option (cohort_y ev co k) (arg_y_pred c),
                                   arg_kwargs := (arg_kwargs c)(''cohorts'' := None)\<rparr>))
                          (\<lambda>t. Inr (cohort_tag ev co k t)))
                  (cohort_keys ev co))
            (cohort_concat ev)
      | _ \<Rightarrow> func (c\<lparr>arg_kwargs := (arg_kwargs c)(''cohorts'' := None)\<rparr>))"

subsection \<open>\<^verbatim>\<open>bias_report\<close>\<close>

text \<open>
  The report is the flagged view of the table, with the table as the flagging leaves it, or
  the rounded table.
\<close>

datatype report = Flagged flag_result frame | Rounded frame

definition bias_report ::
  "('x, 'y, 'c, 'k) env \<Rightarrow> 'x \<Rightarrow> 'y option \<Rightarrow> 'y option \<Rightarrow> string list option \<Rightarrow> string
     \<Rightarrow> pyval \<Rightarrow> bool \<Rightarrow> (string \<rightharpoonup> 'c kwarg) \<Rightarrow> exn + report" where
  "bias_report ev X y_true y_pred features pred_type sig_fig flag_oor kwargs =
     (let validtypes = [''classification'', ''regression''];
          c = \<lparr>arg_X = X, arg_y_true = y_true, arg_y_pred = y_pred,
               arg_features = features, arg_kwargs = kwargs\<rparr>
      in if pred_type \<notin> set validtypes
         then Inl (ValueError ''Summary report type must be one of the valid types'')
         else
           and_then (if pred_type = ''classification''
                     then iterate_cohorts ev (classification_bias_report ev) c
                     else iterate_cohorts ev (regression_bias_report ev) c)
             (\<lambda>d. if flag_oor
                   then (case flag (\<lambda>r. d) 0 (Some '''') sig_fig True of
                           (Inl e, st) \<Rightarrow> Inl e
                         | (Inr styled, st) \<Rightarrow> Inr (Flagged styled (st 0)))
                   else and_then (round_frame ev sig_fig d) (\<lambda>d. Inr (Rounded d))))"

subsection \<open>An example environment\<close>

text \<open>
  The inputs are the table itself and two columns; preprocessing puts them side by side.
  Every measure is 1, and raises for a privileged-group marker other than 1.
\<close>

definition demo_env :: "(frame, cell list, unit, unit) env" where
  "demo_env = \<lparr>
     stratified_preprocess = (\<lambda>X y_true y_pred fs.
        Inr (setcol (setcol X ''y_true'' y_true) ''y_pred'' y_pred)),
     y_col_names = (\<lambda>d. (Some ''y_true'', Some ''y_pred'', None)),
     y_disp_names = (''Target'', ''Pred.''),
     measure = (\<lambda>n a b pa p. if p = 1 then ([], Inr (Num 1)) else ([], Inl (Exc ''boom''))),
     fmt_float = (\<lambda>x. ''0.0''),
     round_frame = (\<lambda>n d. Inr d),
     cohort_keys = (\<lambda>c. [()]),
     cohort_x = (\<lambda>c k x. x),
     cohort_y = (\<lambda>c k y. y),
     cohort_tag = (\<lambda>c k d. d),
     cohort_concat = concat_frames\<rparr>"

definition ratio_if_one :: bias_func where
  "ratio_if_one a b n p = (if p = 1 then ratio_or_fail a b n p else ([], Inl (Exc ''unused'')))"

text \<open>
  Two metric functions agree wherever the privileged-group marker is 1; two dicts of keyword
  arguments differ in \<^verbatim>\<open>priv_grp\<close> at most.
\<close>

definition agree_at_one :: "bias_func \<Rightarrow> bias_func \<Rightarrow> bool" where
  "agree_at_one f1 f2 = (\<forall>a b n. f1 a b n 1 = f2 a b n 1)"

definition same_but_priv_grp :: "(string \<rightharpoonup> 'c kwarg) \<Rightarrow> (string \<rightharpoonup> 'c kwarg) \<Rightarrow> bool" where
  "same_but_priv_grp k1 k2 = (\<forall>n. n \<noteq> ''priv_grp'' \<longrightarrow> k1 n = k2 n)"

section \<open>Properties of \<^verbatim>\<open>sort_report\<close>\<close>

lemma mset_select_columns:
  "distinct ks \<Longrightarrow>
   mset (concat (map (\<lambda>k. filter (\<lambda>c. fst c = k) cs) ks)) = mset (filter (\<lambda>c. fst c \<in> set ks) cs)"
proof (induction ks)
  case Nil
  then show ?case by simp
next
  case (Cons k ks)
  have "mset (filter (\<lambda>c. fst c = k) cs) + mset (filter (\<lambda>c. fst c \<in> set ks) cs)
      = mset (filter (\<lambda>c. fst c = k \<or> fst c \<in> set ks) cs)"
    using Cons.prems by (induction cs) auto
  with Cons show ?case by simp
qed

lemma filter_eq_singleton:
  "distinct xs \<Longrightarrow> k \<in> set xs \<Longrightarrow> filter (\<lambda>x. x = k) xs = [k]"
  by (induction xs) (auto simp: filter_empty_conv)

lemma head_names_distinct:
  "yname \<noteq> yhname \<Longrightarrow> distinct (head_names yname yhname)"
  by (auto simp: head_names_def)

text \<open>
  C5. For a report with pairwise different column names (the target display names being
  different too), \<^verbatim>\<open>sort_report\<close> returns a frame whose columns are first the head names
  that are columns of the report, in the fixed order of the head list, then all other columns
  in sorted order; the columns of the result, with their data, are a permutation of the
  columns of the report, and the rows' index is untouched.
\<close>

theorem sort_report_column_order:
  assumes "distinct (columns report)" and "yname \<noteq> yhname"
  shows "\<exists>r h t. sort_report yname yhname report = Inr r
           \<and> columns r = h @ t
           \<and> h = filter (\<lambda>c. c \<in> set (columns report)) (head_names yname yhname)
           \<and> sorted t
           \<and> set t = set (columns report) - set (head_names yname yhname)
           \<and> mset (cols r) = mset (cols report)
           \<and> index r = index report \<and> names r = names report"
proof -
  define h where "h = filter (\<lambda>c. c \<in> set (columns report)) (head_names yname yhname)"
  define t where "t = sort (filter (\<lambda>c. c \<notin> set h) (columns report))"
  define r where "r = report\<lparr>cols := concat (map (\<lambda>k. filter (\<lambda>c. fst c = k) (cols report)) (h @ t))\<rparr>"
  have sub: "set (h @ t) = set (columns report)"
    by (auto simp: h_def t_def)
  have dist: "distinct (h @ t)"
    using assms by (auto simp: h_def t_def head_names_distinct)
  have "filter (\<lambda>k. k \<notin> set (columns report)) (h @ t) = []"
    using sub by (auto simp: filter_empty_conv)
  then have run: "sort_report yname yhname report = Inr r"
    by (simp add: sort_report_def getitem_list_def Let_def h_def t_def r_def)
  have one: "\<And>k. k \<in> set (columns report) \<Longrightarrow>
      map fst (filter (\<lambda>c. fst c = k) (cols report)) = [k]"
  proof -
    fix k assume "k \<in> set (columns report)"
    then have "filter (\<lambda>x. x = k) (columns report) = [k]"
      using assms(1) by (simp add: filter_eq_singleton)
    then show "map fst (filter (\<lambda>c. fst c = k) (cols report)) = [k]"
      by (simp add: columns_def filter_map comp_def)
  qed
  have sel: "set ks \<subseteq> set (columns report) \<Longrightarrow>
      map fst (concat (map (\<lambda>k. filter (\<lambda>c. fst c = k) (cols report)) ks)) = ks" for ks
    by (induction ks) (auto simp: one)
  have "map fst (concat (map (\<lambda>k. filter (\<lambda>c. fst c = k) (cols report)) (h @ t))) = h @ t"
    using sub by (intro sel) simp
  then have colr: "columns r = h @ t"
    by (simp add: r_def columns_def)
  have "mset (cols r) = mset (filter (\<lambda>c. fst c \<in> set (h @ t)) (cols report))"
    unfolding r_def using mset_select_columns [OF dist] by simp
  also have "\<dots> = mset (cols report)"
    using sub by (simp add: columns_def)
  finally have perm: "mset (cols r) = mset (cols report)" .
  have "set t = set (columns report) - set (head_names yname yhname)"
    by (auto simp: t_def h_def)
  moreover have "sorted t"
    by (simp add: t_def)
  ultimately show ?thesis
    using run colr perm by (auto simp: h_def r_def)
qed

theorem sort_report_column_order_witness:
  "\<exists>r. sort_report ''Target'' ''Pred.'' report0 = Inr r
     \<and> columns r = [''Feature Name'', ''Feature Value'', ''Obs.'', ''Target Mean'', ''Accuracy'', ''TPR'']
     \<and> mset (cols r) = mset (cols report0)"
proof -
  have d: "distinct (columns report0)"
    by (simp add: report0_def columns_def)
  have n: "''Target'' \<noteq> ''Pred.''"
    by simp
  from sort_report_column_order [OF d n] obtain r where
    r: "sort_report ''Target'' ''Pred.'' report0 = Inr r" "mset (cols r) = mset (cols report0)"
    by blast
  have "sort_report ''Target'' ''Pred.'' report0 =
      Inr (report0\<lparr>cols := [(''Feature Name'', [Str ''ALL FEATURES'', Str ''region'']),
             (''Feature Value'', [Str ''ALL VALUES'', Str ''north'']),
             (''Obs.'', [Num 10, Num 4]), (''Target Mean'', [Num 0.5, Num 0.25]),
             (''Accuracy'', [Num 0.9, NaN]), (''TPR'', [Num 1, Num 0.5])]\<rparr>)"
    by (simp add: sort_report_def getitem_list_def head_names_def report0_def columns_def)
  with r show ?thesis
    by (auto simp: columns_def)
qed

section \<open>Properties of the Flagger\<close>

subsection \<open>List comprehensions that may raise\<close>

lemma mapM_Inr_map:
  "(\<And>x. x \<in> set xs \<Longrightarrow> f x = Inr (g x)) \<Longrightarrow> mapM f xs = Inr (map g xs)"
  by (induction xs) auto

lemma mapM_length:
  "mapM f xs = Inr ys \<Longrightarrow> length ys = length xs"
  by (induction xs arbitrary: ys) (auto split: sum.splits)

lemma mapM_nth:
  "mapM f xs = Inr ys \<Longrightarrow> j < length xs \<Longrightarrow> f (xs ! j) = Inr (ys ! j)"
proof (induction xs arbitrary: ys j)
  case Nil
  then show ?case by simp
next
  case (Cons x xs)
  then show ?case by (cases j) (auto split: sum.splits)
qed

lemma flag_style_nonempty: "flag_style self \<noteq> ''''"
  by (simp add: flag_style_def)

lemma lists_disjoint:
  "n \<in> set stats_high \<Longrightarrow> n \<notin> set stats_low"
  "n \<in> set stats_low \<Longrightarrow> n \<notin> set stats_high"
  by (auto simp: stats_high_def stats_low_def)

lemma is_oor_st_high:
  "n \<in> set hi \<Longrightarrow> n \<notin> set lo \<Longrightarrow> numeric i \<Longrightarrow>
   is_oor_st lo hi n i = Inr (\<exists>x. i = Num x \<and> x < 0.8)"
  by (cases i) (auto simp: is_oor_st_def and_then_def numeric_def)

lemma is_oor_st_low:
  "n \<in> set lo \<Longrightarrow> n \<notin> set hi \<Longrightarrow> numeric i \<Longrightarrow>
   is_oor_st lo hi n i = Inr (\<exists>x. i = Num x \<and> x > 0.2)"
  by (cases i) (auto simp: is_oor_st_def and_then_def numeric_def)

lemma is_oor_st_none:
  "n \<notin> set lo \<Longrightarrow> n \<notin> set hi \<Longrightarrow> is_oor_st lo hi n i = Inr False"
  by (auto simp: is_oor_st_def and_then_def)

lemma label_mask_text:
  assumes "list_all (\<lambda>l. case l of StrL _ \<Rightarrow> True | _ \<Rightarrow> False) ls"
  shows "label_mask nms (Some ls) =
         Inr (map (\<lambda>l. case l of StrL m \<Rightarrow> lower m \<in> set nms | _ \<Rightarrow> False) ls)"
  unfolding label_mask_def using assms
  by (auto intro!: mapM_Inr_map simp: list_all_iff label_lower_def and_then_def split: label.splits)


lemma bound_index_labels:
  assumes "bound_to self st r" and "label_type self = Some Index_layout"
  shows "df self = Some r" and "labels self = Some (map (\<lambda>k. k ! 1) (index (st r)))"
  using assms
  by (auto simp: bound_to_def set_measure_labels_def get_level_values_def
           split: sum.splits if_splits)

lemma zip_map_same: "zip xs (map h xs) = map (\<lambda>x. (x, h x)) xs"
  by (induction xs) auto

lemma fst_filter_graph:
  "map fst (filter Q (map (\<lambda>k. (k, h k)) xs)) = filter (\<lambda>k. Q (k, h k)) xs"
  by (induction xs) auto

lemma label_case_ex:
  "(case l of StrL m \<Rightarrow> P m | _ \<Rightarrow> False) \<longleftrightarrow> (\<exists>m. l = StrL m \<and> P m)"
  by (cases l) auto

lemma category_labels_index:
  assumes "df self = Some r"
      and "labels self = Some (map (\<lambda>k. k ! 1) (index (st r)))"
      and "text_labels self"
      and "[StrL cat] \<in> set (map (take 1) (index (st r)))"
  shows "\<exists>lbls. category_labels self st cat nms = Inr lbls
           \<and> set lbls = {k \<in> set (index (st r)). take 1 k = [StrL cat]
                              \<and> (\<exists>m. k ! 1 = StrL m \<and> lower m \<in> set nms)}"
proof -
  let ?ls = "map (\<lambda>k. k ! 1) (index (st r))"
  let ?g = "\<lambda>l. case l of StrL m \<Rightarrow> lower m \<in> set nms | _ \<Rightarrow> False"
  have tl: "list_all (\<lambda>l. case l of StrL _ \<Rightarrow> True | _ \<Rightarrow> False) ?ls"
    using assms(2,3) by (simp add: text_labels_def)
  have m: "label_mask nms (labels self) = Inr (map ?g ?ls)"
    using label_mask_text [OF tl] assms(2) by simp
  have z: "zip (index (st r)) (map ?g ?ls) = map (\<lambda>k. (k, ?g (k ! 1))) (index (st r))"
    by (simp add: comp_def zip_map_same)
  have "category_labels self st cat nms =
        Inr (map fst (filter (\<lambda>(k, b). take 1 k = [StrL cat] \<and> b)
                        (map (\<lambda>k. (k, ?g (k ! 1))) (index (st r)))))"
    using assms(1,4) m z
    by (simp add: category_labels_def and_then_def loc_category_def len_def)
  moreover have "set (map fst (filter (\<lambda>(k, b). take 1 k = [StrL cat] \<and> b)
                        (map (\<lambda>k. (k, ?g (k ! 1))) (index (st r)))))
      = {k \<in> set (index (st r)). take 1 k = [StrL cat]
                              \<and> (\<exists>m. k ! 1 = StrL m \<and> lower m \<in> set nms)}"
    by (auto simp: fst_filter_graph label_case_ex)
  ultimately show ?thesis by blast
qed

lemma category_labels_members:
  assumes "df self = Some r"
      and "labels self = Some (map (\<lambda>k. k ! 1) (index (st r)))"
      and "category_labels self st cat nms = Inr lbls"
      and "k \<in> set lbls"
  shows "\<exists>m. k ! 1 = StrL m \<and> lower m \<in> set nms"
proof -
  let ?ls = "map (\<lambda>k. k ! 1) (index (st r))"
  from assms(3) obtain bm where bm: "label_mask nms (labels self) = Inr bm"
    and lc: "loc_category (st r) cat bm = Inr lbls"
    using assms(1) by (auto simp: category_labels_def and_then_def split: sum.splits)
  have len: "length bm = length (index (st r))"
    using bm assms(2) by (auto simp: label_mask_def dest: mapM_length)
  from lc assms(4) obtain b where kb: "(k, b) \<in> set (zip (index (st r)) bm)" and b: "b"
    by (auto simp: loc_category_def split: if_splits)
  then obtain p where p: "p < length (index (st r))" "index (st r) ! p = k" "bm ! p"
    using len by (auto simp: in_set_zip)
  have "and_then (label_lower (?ls ! p)) (\<lambda>n. Inr (n \<in> set nms)) = Inr (bm ! p)"
    using bm assms(2) p(1) mapM_nth [of _ ?ls bm p] by (simp add: label_mask_def)
  with p show ?thesis
    by (auto simp: and_then_def label_lower_def split: sum.splits label.splits)
qed


lemma flagged_mapM_iff:
  assumes "\<And>i. i \<in> set xs \<Longrightarrow> f i = Inr (g i)" and "j < length xs"
  shows "flagged (mapM f xs) j \<longleftrightarrow> g (xs ! j) \<noteq> ''''"
  using mapM_Inr_map [of xs f g] assms by (simp add: flagged_def)

lemma not_flagged_mapM:
  assumes "\<And>i. i \<in> set xs \<Longrightarrow> f i = Inr '''' \<or> (\<exists>e. f i = Inl e)"
  shows "\<not> flagged (mapM f xs) j"
proof (cases "mapM f xs")
  case (Inl e)
  then show ?thesis by (simp add: flagged_def)
next
  case (Inr ys)
  show ?thesis
  proof (cases "j < length xs")
    case True
    then have "f (xs ! j) = Inr (ys ! j)"
      using Inr by (simp add: mapM_nth)
    moreover have "xs ! j \<in> set xs"
      using True by simp
    ultimately have "ys ! j = ''''"
      using assms [of "xs ! j"] by auto
    then show ?thesis
      using Inr by (simp add: flagged_def)
  next
    case False
    then show ?thesis
      using Inr mapM_length [OF Inr] by (simp add: flagged_def)
  qed
qed

lemma not_flagged_and_then:
  assumes "\<And>x. m = Inr x \<Longrightarrow> \<not> flagged (f x) j"
  shows "\<not> flagged (and_then m f) j"
  using assms by (cases m) (auto simp: and_then_def flagged_def)

lemma rows_of_name:
  "s \<in> set (rows_of d) \<Longrightarrow> name s \<in> set (index d)"
  by (auto simp: rows_of_def dest: set_zip_leftD)

lemma measure_columns:
  assumes "label_type self \<noteq> Some Index_layout" and "measure_of self s = Some m"
  shows "name_lower (name s) = Inr (lower m)"
  using assms
  by (auto simp: measure_of_def name_lower_def label_lower_def split: list.splits label.splits)

lemma measure_index:
  assumes "label_type self = Some Index_layout" and "measure_of self s = Some m"
  shows "name s ! 1 = StrL m"
  using assms
  by (auto simp: measure_of_def split: list.splits label.splits)

lemma category_take:
  "category_of s = Some cat \<Longrightarrow> take 1 (name s) = [StrL cat]"
  by (auto simp: category_of_def split: list.splits label.splits)

lemma color_st_stat:
  assumes b: "bound_to self st r"
      and s: "s \<in> set (styled_series self st r)"
      and m: "measure_of self s = Some m"
      and j: "j < length (vals s)"
      and num: "\<forall>x\<in>set (vals s). numeric x"
      and fu: "filed_under self s ''Individual Fairness''"
      and hi: "lower m \<in> set stats_high \<and> \<not> low \<or> lower m \<in> set stats_low \<and> low"
  shows "flagged (color_st self st s) j \<longleftrightarrow>
         (\<exists>x. vals s ! j = Num x \<and> (if low then x > 0.2 else x < 0.8))"
proof (cases "label_type self = Some Index_layout")
  case False
  let ?g = "\<lambda>i. if (\<exists>x. i = Num x \<and> (if low then x > 0.2 else x < 0.8)) then flag_style self else ''''"
  have nl: "name_lower (name s) = Inr (lower m)"
    using measure_columns [OF False m] .
  have "\<And>i. i \<in> set (vals s) \<Longrightarrow>
      and_then (name_lower (name s)) (\<lambda>n.
        and_then (is_oor_st stats_low stats_high n i)
          (\<lambda>b. Inr (if b then flag_style self else ''''))) = Inr (?g i)"
    using hi num nl lists_disjoint
    by (auto simp: and_then_def is_oor_st_high is_oor_st_low)
  then have "flagged (color_st self st s) j \<longleftrightarrow> ?g (vals s ! j) \<noteq> ''''"
    using False j by (simp add: color_st_def flagged_mapM_iff [where g = ?g])
  then show ?thesis
    by (simp add: flag_style_nonempty)
next
  case True
  let ?g = "\<lambda>i. if (\<exists>x. i = Num x \<and> (if low then x > 0.2 else x < 0.8)) then flag_style self else ''''"
  note bl = bound_index_labels [OF b True]
  have nm: "name s \<in> set (index (st r))"
    using s True by (simp add: styled_series_def rows_of_name)
  have cat: "take 1 (name s) = [StrL ''Individual Fairness'']" and tl: "text_labels self"
    using fu True category_take [of s "''Individual Fairness''"] by (auto simp: filed_under_def)
  have pres: "[StrL ''Individual Fairness''] \<in> set (map (take 1) (index (st r)))"
    using nm cat by force
  have m1: "name s ! 1 = StrL m"
    using measure_index [OF True m] .
  obtain lb_high where h: "category_labels self st ''Individual Fairness'' stats_high = Inr lb_high"
    and hs: "name s \<in> set lb_high \<longleftrightarrow> lower m \<in> set stats_high"
    using category_labels_index [where self = self and st = st and r = r and nms = stats_high, OF bl tl pres]
      nm cat m1 by auto
  obtain lb_low where l: "category_labels self st ''Individual Fairness'' stats_low = Inr lb_low"
    and ls: "name s \<in> set lb_low \<longleftrightarrow> lower m \<in> set stats_low"
    using category_labels_index [where self = self and st = st and r = r and nms = stats_low, OF bl tl pres]
      nm cat m1 by auto
  have "\<And>i. i \<in> set (vals s) \<Longrightarrow>
      and_then (is_oor_st lb_low lb_high (name s) i)
          (\<lambda>b. Inr (if b then flag_style self else '''')) = Inr (?g i)"
    using hi num hs ls lists_disjoint
    by (auto simp: and_then_def is_oor_st_high is_oor_st_low)
  then have "flagged (color_st self st s) j \<longleftrightarrow> ?g (vals s ! j) \<noteq> ''''"
    using True j h l by (simp add: color_st_def and_then_def flagged_mapM_iff [where g = ?g])
  then show ?thesis
    by (simp add: flag_style_nonempty)
qed

lemma unlisted_never_flagged:
  assumes b: "bound_to self st r"
      and m: "measure_of self s = Some m"
      and un: "lower m \<notin> set diffs_list \<union> set ratios \<union> set stats_high \<union> set stats_low"
  shows "\<not> flagged (color_diff self st s) j \<and> \<not> flagged (color_ratio self st s) j
         \<and> \<not> flagged (color_st self st s) j"
proof (cases "label_type self = Some Index_layout")
  case False
  have nl: "name_lower (name s) = Inr (lower m)"
    using measure_columns [OF False m] .
  have "\<not> flagged (color_diff self st s) j"
    using False un nl by (auto simp: color_diff_def and_then_def intro!: not_flagged_mapM)
  moreover have "\<not> flagged (color_ratio self st s) j"
    using False un nl by (auto simp: color_ratio_def and_then_def intro!: not_flagged_mapM)
  moreover have "\<not> flagged (color_st self st s) j"
    using False un nl
    by (auto simp: color_st_def and_then_def is_oor_st_none intro!: not_flagged_mapM)
  ultimately show ?thesis by simp
next
  case True
  note bl = bound_index_labels [OF b True]
  have m1: "name s ! 1 = StrL m"
    using measure_index [OF True m] .
  have out: "name s \<notin> set lbls"
    if "category_labels self st cat nms = Inr lbls" and "lower m \<notin> set nms" for cat nms lbls
    using category_labels_members [where self = self and st = st and r = r and k = "name s",
        OF bl that(1)] that(2) m1
    by auto
  have "\<not> flagged (color_diff self st s) j"
    using True un out [of "''Group Fairness''" diffs_list]
    by (auto simp: color_diff_def intro!: not_flagged_and_then not_flagged_mapM)
  moreover have "\<not> flagged (color_ratio self st s) j"
    using True un out [of "''Group Fairness''" ratios]
    by (auto simp: color_ratio_def intro!: not_flagged_and_then not_flagged_mapM)
  moreover have "\<not> flagged (color_st self st s) j"
  proof -
    have "\<not> flagged (mapM (\<lambda>i. and_then (is_oor_st lo hi (name s) i)
                       (\<lambda>b. Inr (if b then flag_style self else ''''))) (vals s)) j"
      if "category_labels self st ''Individual Fairness'' stats_high = Inr hi"
        and "category_labels self st ''Individual Fairness'' stats_low = Inr lo" for hi lo
      using un out [OF that(1)] out [OF that(2)]
      by (intro not_flagged_mapM) (simp add: is_oor_st_none and_then_def)
    then show ?thesis
      using True by (auto simp: color_st_def intro!: not_flagged_and_then)
  qed
  ultimately show ?thesis by simp
qed

text \<open>
  C4. Let the Flagger be bound to a report and let \<open>s\<close> be one of the series the Styler
  hands to the colouring functions (a column in the columns layout, a row in the index
  layout), with measure name \<open>m\<close>. If \<open>m\<close> is lower-cased a high-is-good statistic, the
  cells of the series are numbers or NaN and, in the index layout, the row is filed under
  ``Individual Fairness'' in an index of text labels, then a cell is flagged by \<^verbatim>\<open>color_st\<close>
  exactly when its value is below 0.8; for a low-is-good statistic, exactly when its value is
  above 0.2. If \<open>m\<close> is lower-cased in none of the four lists, no cell of the series is
  flagged by any of the three colouring functions.
\<close>

theorem color_st_thresholds:
  assumes "bound_to self st r"
      and "s \<in> set (styled_series self st r)"
      and "measure_of self s = Some m"
      and "j < length (vals s)"
  shows "(lower m \<in> set stats_high \<and> (\<forall>x\<in>set (vals s). numeric x)
            \<and> filed_under self s ''Individual Fairness''
          \<longrightarrow> (flagged (color_st self st s) j \<longleftrightarrow> (\<exists>x. vals s ! j = Num x \<and> x < 0.8)))
       \<and> (lower m \<in> set stats_low \<and> (\<forall>x\<in>set (vals s). numeric x)
            \<and> filed_under self s ''Individual Fairness''
          \<longrightarrow> (flagged (color_st self st s) j \<longleftrightarrow> (\<exists>x. vals s ! j = Num x \<and> x > 0.2)))
       \<and> (lower m \<notin> set diffs_list \<union> set ratios \<union> set stats_high \<union> set stats_low
          \<longrightarrow> \<not> flagged (color_diff self st s) j \<and> \<not> flagged (color_ratio self st s) j
              \<and> \<not> flagged (color_st self st s) j)"
  using color_st_stat [OF assms, where low = False] color_st_stat [OF assms, where low = True]
    unlisted_never_flagged [OF assms(1,3), of j]
  by auto

lemma mapM_Inl: "mapM f xs = Inl e \<Longrightarrow> \<exists>x\<in>set xs. f x = Inl e"
  by (induction xs) (auto split: sum.splits)

lemma and_then_Inl:
  "and_then m f = Inl e \<Longrightarrow> m = Inl e \<or> (\<exists>x. m = Inr x \<and> f x = Inl e)"
  by (cases m) (auto simp: and_then_def)

lemma not_between_exn: "not_between lo hi i = Inl e \<Longrightarrow> pass_exn e"
  by (cases i) (auto simp: not_between_def and_then_def pass_exn_def split: if_splits)

lemma is_oor_st_exn: "is_oor_st lo hi n i = Inl e \<Longrightarrow> pass_exn e"
  by (cases i) (auto simp: is_oor_st_def and_then_def pass_exn_def split: if_splits)

lemma label_lower_exn: "label_lower c = Inl e \<Longrightarrow> pass_exn e"
  by (cases c) (auto simp: label_lower_def pass_exn_def)

lemma name_lower_exn: "name_lower nm = Inl e \<Longrightarrow> pass_exn e"
  by (auto simp: name_lower_def pass_exn_def split: list.splits dest: label_lower_exn)

lemma category_labels_exn: "category_labels self st cat nms = Inl e \<Longrightarrow> pass_exn e"
  by (auto simp: category_labels_def label_mask_def loc_category_def
           dest!: and_then_Inl mapM_Inl label_lower_exn
           split: option.splits if_splits) (auto simp: pass_exn_def)

lemma color_diff_exn: "color_diff self st s = Inl e \<Longrightarrow> pass_exn e"
  by (auto simp: color_diff_def is_oor_diff_def
           dest!: and_then_Inl mapM_Inl dest: category_labels_exn not_between_exn name_lower_exn
           split: if_splits)

lemma color_ratio_exn: "color_ratio self st s = Inl e \<Longrightarrow> pass_exn e"
  by (auto simp: color_ratio_def is_oor_ratio_def
           dest!: and_then_Inl mapM_Inl dest: category_labels_exn not_between_exn name_lower_exn
           split: if_splits)

lemma color_st_exn: "color_st self st s = Inl e \<Longrightarrow> pass_exn e"
  by (auto simp: color_st_def
           dest!: and_then_Inl mapM_Inl dest: category_labels_exn is_oor_st_exn name_lower_exn
           split: if_splits)

lemma render_exn: "render self st sty = Inl e \<Longrightarrow> pass_exn e"
  by (auto simp: render_def run_pass_def
           dest!: and_then_Inl mapM_Inl dest: color_diff_exn color_ratio_exn color_st_exn
           split: color_pass.splits)

lemma insert_levels_exn:
  "insert_levels d lvs = (Some e, d') \<Longrightarrow> \<exists>nm. e = ValueError (''cannot insert '' @ nm @ '', already exists'')"
  by (induction d lvs rule: insert_levels.induct) (auto simp: insert_col_def split: if_splits)

lemma reset_index_exn:
  "reset_index d = (Some e, d') \<Longrightarrow> \<exists>nm. e = ValueError (''cannot insert '' @ nm @ '', already exists'')"
  by (auto simp: reset_index_def Let_def split: prod.splits option.splits dest: insert_levels_exn)

lemma finish_flag_exn:
  "fst (finish_flag self st sty sf as_styler) = Inl e \<Longrightarrow> pass_exn e"
  by (auto simp: finish_flag_def Let_def split: if_splits sum.splits dest: render_exn)

lemma distinct_remdups_length: "length (remdups xs) < length xs \<longleftrightarrow> \<not> distinct xs"
  by (metis distinct_remdups length_remdups_eq length_remdups_leq remdups_id_iff_distinct nat_less_le)

lemma finish_flag_state:
  "snd (finish_flag self st sty sf as_styler) = (self, st)"
  by (auto simp: finish_flag_def Let_def split: sum.splits)

text \<open>
  C8, as amended. \<^verbatim>\<open>apply_flag\<close> leaves every frame of the store as it was, except in one
  case: when \<^verbatim>\<open>sig_fig\<close> passes the check, the labels are in the columns and the row index
  of the caller's frame repeats a key, the caller's frame itself has its index reset in place
  (\<^verbatim>\<open>self.df\<close> is the caller's object and \<^verbatim>\<open>reset_index\<close> runs with \<^verbatim>\<open>inplace=True\<close>).
\<close>

theorem apply_flag_store:
  "snd (snd (apply_flag self st dfr caption sig_fig as_styler)) =
     (if (\<exists>n. sig_fig = PyInt n) \<and> snd (set_measure_labels (st dfr)) = Columns_layout
         \<and> \<not> distinct (index (st dfr))
      then st(dfr := snd (reset_index (st dfr))) else st)"
proof (cases sig_fig)
  case (PyInt n)
  show ?thesis
  proof (cases "snd (set_measure_labels (st dfr))")
    case Index_layout
    then show ?thesis
      using PyInt
      by (auto simp: apply_flag_def Let_def finish_flag_state split: prod.splits sum.splits)
  next
    case Columns_layout
    then show ?thesis
      using PyInt
      by (auto simp: apply_flag_def Let_def finish_flag_state distinct_remdups_length len_def
               split: prod.splits sum.splits option.splits)
  qed
qed (simp_all add: apply_flag_def)

text \<open>
  C9. For every \<^verbatim>\<open>sig_fig\<close> that is not an integer other than a boolean, \<^verbatim>\<open>apply_flag\<close>
  raises the \<^verbatim>\<open>ValueError\<close> of the significant-figure check and leaves the instance (no
  frame bound) and the store as they were; for every integer the call does not raise that
  error, and the instance ends up bound to the caller's frame.
\<close>

theorem apply_flag_sig_fig:
  "((\<forall>n. sig_fig \<noteq> PyInt n) \<longrightarrow>
      apply_flag self st dfr caption sig_fig as_styler
        = (Inl (ValueError ''Invalid value of significant figure''), self, st))
   \<and> (\<forall>n. fst (apply_flag self st dfr caption (PyInt n) as_styler)
            \<noteq> Inl (ValueError ''Invalid value of significant figure'')
          \<and> df (fst (snd (apply_flag self st dfr caption (PyInt n) as_styler))) = Some dfr)"
proof -
  have a: "apply_flag self st dfr caption sig_fig as_styler
        = (Inl (ValueError ''Invalid value of significant figure''), self, st)"
    if "\<forall>n. sig_fig \<noteq> PyInt n"
    using that by (cases sig_fig) (simp_all add: apply_flag_def)
  have ne: "\<not> pass_exn (ValueError ''Invalid value of significant figure'')"
    by (simp add: pass_exn_def)
  have fin: "fst (finish_flag s' st' sty sf as_styler) \<noteq> Inl (ValueError ''Invalid value of significant figure'')"
    for s' st' sty sf
    using finish_flag_exn [of s' st' sty sf as_styler] ne by auto
  have fin2: "df (fst (snd (finish_flag s' st' sty sf as_styler))) = df s'" for s' st' sty sf
    by (simp add: finish_flag_state)
  have b: "fst (apply_flag self st dfr caption (PyInt n) as_styler)
            \<noteq> Inl (ValueError ''Invalid value of significant figure'')" for n
    by (auto simp: apply_flag_def Let_def style_def fin
             split: prod.splits sum.splits option.splits if_splits
             dest!: reset_index_exn)
  have c: "df (fst (snd (apply_flag self st dfr caption (PyInt n) as_styler))) = Some dfr" for n
    by (auto simp: apply_flag_def Let_def fin2
             split: prod.splits sum.splits option.splits if_splits)
  show ?thesis using a b c by blast
qed

theorem color_st_thresholds_witness:
  "flagged (color_st (bound_flagger summary_frame) summary_store consistency_row) 0
   \<and> flagged (color_st (bound_flagger summary_frame) summary_store entropy_row) 0
   \<and> \<not> flagged (color_diff (bound_flagger summary_frame) summary_store accuracy_row) 0
   \<and> \<not> flagged (color_ratio (bound_flagger summary_frame) summary_store accuracy_row) 0
   \<and> \<not> flagged (color_st (bound_flagger summary_frame) summary_store accuracy_row) 0"
proof -
  let ?self = "bound_flagger summary_frame"
  have b: "bound_to ?self summary_store 0"
    by (simp add: bound_to_def bound_flagger_def summary_store_def)
  have lt: "label_type ?self = Some Index_layout"
    by (simp add: bound_flagger_def set_measure_labels_def get_level_values_def
        summary_frame_def is_Int64Index_def)
  have rows: "styled_series ?self summary_store 0 = rows_of summary_frame"
    unfolding styled_series_def lt by (simp add: summary_store_def)
  have s: "consistency_row \<in> set (styled_series ?self summary_store 0)"
    "entropy_row \<in> set (styled_series ?self summary_store 0)"
    "accuracy_row \<in> set (styled_series ?self summary_store 0)"
    unfolding rows
    by (simp_all add: rows_of_def summary_frame_def len_def consistency_row_def entropy_row_def
        accuracy_row_def upt_rec)
  have m: "measure_of ?self consistency_row = Some ''Consistency Score''"
    "measure_of ?self entropy_row = Some ''Between-Group Gen. Entropy Error''"
    "measure_of ?self accuracy_row = Some ''Accuracy''"
    unfolding measure_of_def lt
    by (simp_all add: consistency_row_def entropy_row_def accuracy_row_def)
  have j: "0 < length (vals consistency_row)" "0 < length (vals entropy_row)"
    "0 < length (vals accuracy_row)"
    by (simp_all add: consistency_row_def entropy_row_def accuracy_row_def)
  have names: "lower ''Consistency Score'' \<in> set stats_high"
    "lower ''Between-Group Gen. Entropy Error'' \<in> set stats_low"
    "lower ''Accuracy'' \<notin> set diffs_list \<union> set ratios \<union> set stats_high \<union> set stats_low"
    by (simp_all add: lower_def lower_char_def stats_high_def stats_low_def diffs_list_def
        ratios_def)
  have num: "\<forall>x\<in>set (vals consistency_row). numeric x" "\<forall>x\<in>set (vals entropy_row). numeric x"
    by (simp_all add: consistency_row_def entropy_row_def numeric_def)
  have tl: "text_labels ?self"
    by (simp add: text_labels_def bound_flagger_def set_measure_labels_def get_level_values_def
        summary_frame_def is_Int64Index_def)
  have fu: "filed_under ?self consistency_row ''Individual Fairness''"
    "filed_under ?self entropy_row ''Individual Fairness''"
    using tl by (simp_all add: filed_under_def category_of_def consistency_row_def entropy_row_def)
  have v: "\<exists>x. vals consistency_row ! 0 = Num x \<and> x < 0.8"
    "\<exists>x. vals entropy_row ! 0 = Num x \<and> x > 0.2"
    by (rule exI [of _ "0.5"], simp add: consistency_row_def)
       (rule exI [of _ "0.5"], simp add: entropy_row_def)
  from color_st_thresholds [OF b s(1) m(1) j(1)] names(1) num(1) fu(1) v(1)
  have 1: "flagged (color_st ?self summary_store consistency_row) 0"
    by blast
  from color_st_thresholds [OF b s(2) m(2) j(2)] names(2) num(2) fu(2) v(2)
  have 2: "flagged (color_st ?self summary_store entropy_row) 0"
    by blast
  from color_st_thresholds [OF b s(3) m(3) j(3)] names(3)
  have 3: "\<not> flagged (color_diff ?self summary_store accuracy_row) 0
         \<and> \<not> flagged (color_ratio ?self summary_store accuracy_row) 0
         \<and> \<not> flagged (color_st ?self summary_store accuracy_row) 0"
    by blast
  show ?thesis using 1 2 3 by simp
qed

theorem apply_flag_sig_fig_witness:
  "apply_flag new_flagger dup_store 0 None (PyBool True) True
     = (Inl (ValueError ''Invalid value of significant figure''), new_flagger, dup_store)
   \<and> fst (apply_flag new_flagger dup_store 0 None (PyInt 4) True)
       \<noteq> Inl (ValueError ''Invalid value of significant figure'')"
  using apply_flag_sig_fig [of "PyBool True" new_flagger dup_store 0 None True]
    apply_flag_sig_fig [of "PyInt 4" new_flagger dup_store 0 None True]
  by simp

theorem apply_flag_store_witness:
  "snd (snd (apply_flag new_flagger summary_store 0 None (PyInt 4) False)) = summary_store
   \<and> snd (snd (apply_flag new_flagger dup_store 0 None (PyInt 4) False))
       = dup_store(0 := \<lparr>names = [None], index = [[IntL 0], [IntL 1]],
                           cols = [(''index'', [Num 0, Num 0]), (''PPV Ratio'', [Num 0.7, Num 1.0])]\<rparr>)"
proof -
  have a: "snd (set_measure_labels (summary_store 0)) = Index_layout"
    by (simp add: set_measure_labels_def get_level_values_def summary_store_def
        summary_frame_def is_Int64Index_def)
  have b: "snd (set_measure_labels (dup_store 0)) = Columns_layout"
    by (simp add: set_measure_labels_def get_level_values_def dup_store_def dup_frame_def)
  have c: "\<not> distinct (index (dup_store 0))"
    by (simp add: dup_store_def dup_frame_def)
  have d: "snd (reset_index (dup_store 0)) = \<lparr>names = [None], index = [[IntL 0], [IntL 1]],
                           cols = [(''index'', [Num 0, Num 0]), (''PPV Ratio'', [Num 0.7, Num 1.0])]\<rparr>"
    by (simp add: reset_index_def dup_store_def dup_frame_def level_names_def columns_def
        insert_col_def cell_of_label_def RangeIndex_def len_def upt_rec)
  show ?thesis
    using apply_flag_store [of new_flagger summary_store 0 None "PyInt 4" False]
      apply_flag_store [of new_flagger dup_store 0 None "PyInt 4" False] a b c d
    by simp
qed

text \<open>
  C8 as stated fails: a frame in the columns layout whose row index is \<open>[0, 0]\<close> is passed to
  \<^verbatim>\<open>flag\<close>; the call returns a Styler, and the caller's frame now has the index \<open>[0, 1]\<close>
  and a new first column \<^verbatim>\<open>index\<close>.
\<close>

theorem flag_mutates_caller_table:
  "fst (flag dup_store 0 (Some ''Bias'') (PyInt 4) True)
     = Inr (Styled \<lparr>data = 0, caption_text = ''Bias'',
                     todo = [(Color_diff, 0), (Color_ratio, 0), (Color_st, 0)],
                     precision = PyInt 4\<rparr>)
   \<and> snd (flag dup_store 0 (Some ''Bias'') (PyInt 4) True) 0
     = \<lparr>names = [None], index = [[IntL 0], [IntL 1]],
        cols = [(''index'', [Num 0, Num 0]), (''PPV Ratio'', [Num 0.7, Num 1.0])]\<rparr>
   \<and> snd (flag dup_store 0 (Some ''Bias'') (PyInt 4) True) 0 \<noteq> dup_store 0"
  by (simp add: flag_def apply_flag_def new_flagger_def reset_def set_measure_labels_def
      get_level_values_def dup_store_def dup_frame_def reset_index_def level_names_def
      columns_def insert_col_def cell_of_label_def RangeIndex_def len_def upt_rec style_def
      finish_flag_def)

text \<open>
  C3. The value 0.5 lies outside \<open>(-0.1, 0.1)\<close> and outside \<open>(0.8, 1.2)\<close>. Under the column
  ``Equalized Odds Difference'' it is flagged by \<^verbatim>\<open>color_diff\<close> and under ``Equalized Odds
  Ratio'' by \<^verbatim>\<open>color_ratio\<close>, but under ``Statistical Parity Difference'' and under
  ``Disparate Impact Ratio'' it is not, in the columns layout and in the index layout alike:
  the lower-cased name is looked up in a list that spells the first with capitals and the
  second with a trailing blank.
\<close>

theorem flagger_misses_parity_and_impact:
  "color_diff (bound_flagger fairness_frame) fairness_store
       \<lparr>name = [StrL ''Statistical Parity Difference''], vals = [Num 0.5]\<rparr> = Inr ['''']
   \<and> color_ratio (bound_flagger fairness_frame) fairness_store
       \<lparr>name = [StrL ''Disparate Impact Ratio''], vals = [Num 0.5]\<rparr> = Inr ['''']
   \<and> color_diff (bound_flagger fairness_frame) fairness_store
       \<lparr>name = [StrL ''Equalized Odds Difference''], vals = [Num 0.5]\<rparr>
         = Inr [''background-color:magenta'']
   \<and> color_ratio (bound_flagger fairness_frame) fairness_store
       \<lparr>name = [StrL ''Equalized Odds Ratio''], vals = [Num 0.5]\<rparr>
         = Inr [''background-color:magenta'']
   \<and> color_diff (bound_flagger summary_frame) summary_store
       \<lparr>name = [StrL ''Group Fairness'', StrL ''Statistical Parity Difference''],
        vals = [Num 0.5]\<rparr> = Inr ['''']
   \<and> color_ratio (bound_flagger summary_frame) summary_store
       \<lparr>name = [StrL ''Group Fairness'', StrL ''Disparate Impact Ratio''],
        vals = [Num 0.5]\<rparr> = Inr ['''']"
  by (simp add: color_diff_def color_ratio_def bound_flagger_def new_flagger_def reset_def
      set_measure_labels_def get_level_values_def fairness_frame_def summary_frame_def
      fairness_store_def summary_store_def is_Int64Index_def columns_def
      name_lower_def label_lower_def lower_def lower_char_def diffs_list_def ratios_def
      and_then_def is_oor_diff_def is_oor_ratio_def not_between_def flag_style_def
      category_labels_def label_mask_def loc_category_def len_def)

section \<open>Properties of the appliers\<close>

subsection \<open>A feature that fails is skipped, the others are not affected\<close>

lemma apply_groups_fails:
  "isl (snd (apply_groups func args gs)) \<longleftrightarrow> (\<exists>(k, x)\<in>set gs. isl (snd (func x args)))"
  by (induction gs) (auto split: prod.splits sum.splits)

lemma raises_fails:
  "raises_on_partition d func args f \<Longrightarrow> feature_fails d func args f"
proof -
  assume "raises_on_partition d func args f"
  then obtain grp where g: "groupby d f = Inr grp"
    and ex: "\<exists>(k, x)\<in>set grp. isl (snd (func x args))"
    by (auto simp: raises_on_partition_def list_ex_iff split: sum.splits)
  from ex have "isl (snd (apply_groups func args grp))"
    by (simp add: apply_groups_fails)
  then show ?thesis
    using g by (auto simp: feature_fails_def groupby_apply_def split: prod.splits sum.splits)
qed

lemma feature_step_fails:
  assumes "feature_fails d func args f"
  shows "feature_step d func args f s = Inr (record_err f (failure_of d func args f) s)"
  using assms
  by (auto simp: feature_step_def feature_fails_def record_err_def failure_of_def
           split: prod.splits sum.splits)

lemma feature_step_commute:
  assumes "g \<noteq> f"
  shows "feature_step d func args g (record_err f e s)
           = map_result (record_err f e) (feature_step d func args g s)"
  using assms
  by (auto simp: feature_step_def record_err_def and_then_def Let_def fun_upd_twist map_result_def
           split: prod.splits sum.splits)

lemma record_err_idem: "record_err f e (record_err f e s) = record_err f e s"
  by (simp add: record_err_def)

lemma sweep_skip_failed:
  assumes "feature_fails d func args f"
  shows "foldM (feature_step d func args) xs (record_err f (failure_of d func args f) s)
       = map_result (record_err f (failure_of d func args f))
           (foldM (feature_step d func args) (removeAll f xs) s)"
proof (induction xs arbitrary: s)
  case Nil
  then show ?case by (simp add: map_result_def)
next
  case (Cons x xs)
  show ?case
  proof (cases "x = f")
    case True
    then show ?thesis
      using Cons [of s] by (simp add: feature_step_fails [OF assms] record_err_idem)
  next
    case False
    then show ?thesis
      using Cons by (auto simp: feature_step_commute map_result_def split: sum.splits)
  qed
qed

lemma sweep_without_failed:
  assumes "feature_fails d func args f"
  shows "foldM (feature_step d func args) xs s
       = (if f \<in> set xs
          then map_result (record_err f (failure_of d func args f))
                 (foldM (feature_step d func args) (removeAll f xs) s)
          else foldM (feature_step d func args) (removeAll f xs) s)"
proof (induction xs arbitrary: s)
  case Nil
  then show ?case by simp
next
  case (Cons x xs)
  show ?case
  proof (cases "x = f")
    case True
    then show ?thesis
      by (simp add: feature_step_fails [OF assms] sweep_skip_failed [OF assms])
  next
    case False
    then show ?thesis
      using Cons by (auto split: sum.splits simp: map_result_def)
  qed
qed

lemma finish_record_err:
  "finish_sweep (record_err f e s)
     = map_result (\<lambda>(t, er, w). (t, er(f \<mapsto> e), w)) (finish_sweep s)"
  by (auto simp: finish_sweep_def record_err_def and_then_def map_result_def split: sum.splits)

lemma apply_without_failed:
  assumes "feature_fails d func args f"
  shows "apply_featureGroups xs d func args
       = (if f \<in> set xs
          then map_result (\<lambda>(t, er, w). (t, er(f \<mapsto> failure_of d func args f), w))
                 (apply_featureGroups (removeAll f xs) d func args)
          else apply_featureGroups (removeAll f xs) d func args)"
  unfolding apply_featureGroups_def sweep_without_failed [OF assms, of xs new_ledger]
  by (auto simp: and_then_def finish_record_err map_result_def split: sum.splits)

lemma feature_step_tagged:
  assumes "feature_step d func args f s = Inr s'" and "tagged (\<lambda>h. \<not> feature_fails d func args h) (res s)"
  shows "tagged (\<lambda>h. \<not> feature_fails d func args h) (res s')"
proof (cases "feature_fails d func args f")
  case True
  then show ?thesis
    using assms by (auto simp: feature_step_fails record_err_def)
next
  case False
  from assms(1) False obtain g n rest where "res s' = res s @ [g]"
    and "cols g = (''Feature Name'', replicate n (Str f)) # rest"
    by (auto simp: feature_step_def feature_fails_def and_then_def Let_def insert_col_def
             split: prod.splits sum.splits if_splits)
  then show ?thesis
    using assms(2) False by (auto simp: tagged_def)
qed

lemma sweep_tagged:
  assumes "foldM (feature_step d func args) xs s = Inr s'"
      and "tagged (\<lambda>h. \<not> feature_fails d func args h) (res s)"
  shows "tagged (\<lambda>h. \<not> feature_fails d func args h) (res s')"
  using assms
proof (induction xs arbitrary: s)
  case Nil
  then show ?case by simp
next
  case (Cons x xs)
  then show ?case
    by (auto split: sum.splits dest: feature_step_tagged)
qed

lemma map_of_graph:
  "map_of (map (\<lambda>c. (c, G c)) cs) k = (if k \<in> set cs then Some (G k) else None)"
  by (induction cs) auto

lemma concat_tagged:
  assumes "tagged P fs" and "concat_frames fs = Inr t" and "\<not> P f"
  shows "rows_for t f = 0"
proof -
  have ne: "fs \<noteq> []"
    using assms(2) by (auto simp: concat_frames_def)
  have col0: "\<And>g. g \<in> set fs \<Longrightarrow> \<exists>h n. h \<noteq> f \<and> map_of (cols g) ''Feature Name'' = Some (replicate n (Str h))
      \<and> snd (cols g ! 0) = replicate n (Str h) \<and> columns g ! 0 = ''Feature Name'' \<and> columns g \<noteq> []"
    using assms(1,3) by (fastforce simp: tagged_def columns_def)
  have nof: "filter (\<lambda>c. c = Str f) (concat (map G fs)) = []"
    if "\<And>g. g \<in> set fs \<Longrightarrow> \<exists>h n. h \<noteq> f \<and> G g = replicate n (Str h)" for G
  proof -
    have "filter (\<lambda>c. c = Str f) (G g) = []" if "g \<in> set fs" for g
    proof -
      from \<open>\<And>g. g \<in> set fs \<Longrightarrow> \<exists>h n. h \<noteq> f \<and> G g = replicate n (Str h)\<close> [OF that]
      obtain h n where "h \<noteq> f" "G g = replicate n (Str h)" by blast
      then show ?thesis by simp
    qed
    then show ?thesis by (induction fs) auto
  qed
  show ?thesis
  proof (cases "list_all (\<lambda>d. columns d = columns (hd fs)) fs")
    case True
    have h: "hd fs \<in> set fs" using ne by simp
    from col0 [OF h] have l: "0 < length (columns (hd fs))" and c0: "columns (hd fs) ! 0 = ''Feature Name''"
      by auto
    have t: "t = \<lparr>names = [None], index = RangeIndex (sum_list (map len fs)),
                cols = map (\<lambda>i. (columns (hd fs) ! i, concat (map (\<lambda>d. snd (cols d ! i)) fs)))
                           [0..<length (columns (hd fs))]\<rparr>"
      using assms(2) ne True by (simp add: concat_frames_def Let_def)
    have "map_of (cols t) ''Feature Name'' = Some (concat (map (\<lambda>d. snd (cols d ! 0)) fs))"
      using l c0 by (simp add: t upt_conv_Cons)
    moreover have "filter (\<lambda>c. c = Str f) (concat (map (\<lambda>d. snd (cols d ! 0)) fs)) = []"
      using col0 by (intro nof) blast
    ultimately show ?thesis
      by (simp add: rows_for_def)
  next
    case False
    let ?G = "\<lambda>c. concat (map (\<lambda>d. case map_of (cols d) c of Some v \<Rightarrow> v
                                                 | None \<Rightarrow> replicate (len d) NaN) fs)"
    have t: "t = \<lparr>names = [None], index = RangeIndex (sum_list (map len fs)),
                cols = map (\<lambda>c. (c, ?G c)) (unique (concat (map columns fs)))\<rparr>"
      using assms(2) ne False by (simp add: concat_frames_def Let_def split: if_splits)
    have h: "hd fs \<in> set fs" using ne by simp
    from col0 [OF h] have "''Feature Name'' \<in> set (columns (hd fs))"
      by (metis nth_mem length_greater_0_conv)
    then have "''Feature Name'' \<in> set (unique (concat (map columns fs)))"
      using h by (auto simp: unique_def)
    then have "map_of (cols t) ''Feature Name'' = Some (?G ''Feature Name'')"
      by (simp add: t map_of_graph)
    moreover have "filter (\<lambda>c. c = Str f) (?G ''Feature Name'') = []"
    proof (intro nof)
      fix g assume "g \<in> set fs"
      from col0 [OF this] show "\<exists>h n. h \<noteq> f \<and>
          (case map_of (cols g) ''Feature Name'' of Some v \<Rightarrow> v | None \<Rightarrow> replicate (len g) NaN)
            = replicate n (Str h)"
        by auto
    qed
    ultimately show ?thesis
      by (simp add: rows_for_def)
  qed
qed

lemma failed_feature_no_rows:
  assumes "feature_fails d func args f"
      and "apply_featureGroups xs d func args = Inr (t, er, w)"
  shows "rows_for t f = 0"
proof -
  from assms(2) obtain s where s: "foldM (feature_step d func args) xs new_ledger = Inr s"
    and fin: "finish_sweep s = Inr (t, er, w)"
    by (auto simp: apply_featureGroups_def and_then_def split: sum.splits)
  have tg: "tagged (\<lambda>h. \<not> feature_fails d func args h) (res s)"
    using sweep_tagged [OF s] by (simp add: new_ledger_def tagged_def)
  show ?thesis
  proof (cases "res s = []")
    case True
    then show ?thesis
      using fin by (auto simp: finish_sweep_def and_then_def DataFrame_columns_def rows_for_def)
  next
    case False
    then have "concat_frames (res s) = Inr t"
      using fin by (auto simp: finish_sweep_def and_then_def split: sum.splits)
    from concat_tagged [OF tg this] assms(1) show ?thesis by simp
  qed
qed

text \<open>
  C1, as amended. If the metric function raises while it processes one partition of a
  feature \<open>f\<close>, the whole feature is skipped: the returned table has no row for \<open>f\<close>, and
  the exception that ended the computation of \<open>f\<close> is recorded in the ledger against \<open>f\<close>.
  The other features are not affected: the table, the warnings and the exceptions recorded
  against other features are those of the sweep without \<open>f\<close>.
\<close>

theorem failed_feature_skipped:
  assumes "raises_on_partition d func args f"
  shows "results_of (apply_featureGroups features d func args)
           = results_of (apply_featureGroups (removeAll f features) d func args)
       \<and> warns_of (apply_featureGroups features d func args)
           = warns_of (apply_featureGroups (removeAll f features) d func args)
       \<and> (\<forall>g. g \<noteq> f \<longrightarrow> errs_of (apply_featureGroups features d func args) g
                          = errs_of (apply_featureGroups (removeAll f features) d func args) g)
       \<and> (\<forall>t. results_of (apply_featureGroups features d func args) = Some t
              \<longrightarrow> rows_for t f = 0
                \<and> (f \<in> set features
                     \<longrightarrow> errs_of (apply_featureGroups features d func args) f
                           = Some (failure_of d func args f)))"
proof -
  note ff = raises_fails [OF assms]
  note eq = apply_without_failed [OF ff, of features]
  have 1: "results_of (apply_featureGroups features d func args)
           = results_of (apply_featureGroups (removeAll f features) d func args)"
    unfolding eq by (auto simp: results_of_def map_result_def split: sum.splits)
  have 2: "warns_of (apply_featureGroups features d func args)
           = warns_of (apply_featureGroups (removeAll f features) d func args)"
    unfolding eq by (auto simp: warns_of_def map_result_def split: sum.splits)
  have 3: "errs_of (apply_featureGroups features d func args) g
         = errs_of (apply_featureGroups (removeAll f features) d func args) g" if "g \<noteq> f" for g
    unfolding eq using that by (auto simp: errs_of_def map_result_def split: sum.splits)
  have 4: "rows_for t f = 0" if "results_of (apply_featureGroups features d func args) = Some t" for t
    using that failed_feature_no_rows [OF ff, of features]
    by (auto simp: results_of_def split: sum.splits)
  have 5: "errs_of (apply_featureGroups features d func args) f = Some (failure_of d func args f)"
    if "results_of (apply_featureGroups features d func args) = Some t" "f \<in> set features" for t
    using that unfolding eq by (auto simp: errs_of_def results_of_def map_result_def split: sum.splits)
  show ?thesis using 1 2 3 4 5 by blast
qed

theorem failed_feature_skipped_witness:
  "results_of (apply_featureGroups [''region'', ''y_pred''] region_frame count_or_fail ())
     = results_of (apply_featureGroups [''y_pred''] region_frame count_or_fail ())
   \<and> errs_of (apply_featureGroups [''region'', ''y_pred''] region_frame count_or_fail ()) ''y_pred''
     = errs_of (apply_featureGroups [''y_pred''] region_frame count_or_fail ()) ''y_pred''"
proof -
  have r: "raises_on_partition region_frame count_or_fail () ''region''"
    by (simp add: raises_on_partition_def groupby_def getcol_def region_frame_def and_then_def
      group_keys_def take_rows_def pick_def count_or_fail_def len_def RangeIndex_def upt_rec)
  from failed_feature_skipped [OF r, of "[''region'', ''y_pred'']"] show ?thesis
    by simp
qed


text \<open>
  C1 as stated fails. The table has the feature \<^verbatim>\<open>region\<close> with the partitions north and
  south; the metric function counts the observations of the north and raises on the south.
  The returned table has no row at all: the row of the north does not appear.
\<close>

theorem partition_failure_drops_feature:
  "raises_on_partition region_frame count_or_fail () ''region''
   \<and> snd (count_or_fail (take_rows region_frame [True, False, True, False]) ())
       = Inr [(''Obs.'', Num 2)]
   \<and> results_of (apply_featureGroups [''region''] region_frame count_or_fail ())
       = Some (DataFrame_columns [''Feature Name'', ''Feature Value''])
   \<and> len (DataFrame_columns [''Feature Name'', ''Feature Value'']) = 0"
  by (simp add: raises_on_partition_def groupby_def getcol_def region_frame_def and_then_def
      group_keys_def take_rows_def pick_def count_or_fail_def len_def RangeIndex_def upt_rec
      apply_featureGroups_def feature_step_def groupby_apply_def new_ledger_def
      finish_sweep_def results_of_def DataFrame_columns_def)

subsection \<open>The scenario of two regions\<close>

lemma length_ten:
  "length xs = 10 \<Longrightarrow> \<exists>a b c d e f g h i j. xs = [a, b, c, d, e, f, g, h, i, j]"
  by (auto simp: numeral_eq_Suc length_Suc_conv)

lemma north_vals: "sort (unique [''north'', ''north'', ''north'', ''north'', ''north'',
    ''south'', ''south'', ''south'', ''south'', ''south'']) = [''north'', ''south'']"
  by (simp add: unique_def)

lemma region_sweep_explicit:
  assumes h1: "func (zip north_index [a, b, c, d, e, f, g, h, i, j])
                  (zip north_index [a', b', c', d', e', f', g', h', i', j']) pa_name 1
               = (w, Inr [(''Selection Ratio'', Num 1)])"
      and h2: "func (zip south_index [a, b, c, d, e, f, g, h, i, j])
                  (zip south_index [a', b', c', d', e', f', g', h', i', j']) pa_name 1
               = (w', Inl ex)"
  shows "apply_biasGroups fmt [''region'']
           (scenario_frame [a, b, c, d, e, f, g, h, i, j] [a', b', c', d', e', f', g', h', i', j'])
           func ''y_true'' ''y_pred''
         = Inr (north_row, [''region'' \<mapsto> ex], if w = [] then Map.empty else [''region'' \<mapsto> w])"
  using h1 h2
  by (simp add: apply_biasGroups_def bias_feature_step_def scenario_frame_def getcol_def
      and_then_def setcol_def columns_def astype_str_def str_values_def north_vals
      value_step_def mark_group_def len_def RangeIndex_def pa_name_def loc_set_def
      nunique_def getitem_list_def take_rows_def pick_def set_index_def label_of_cell_def
      call_metric_def getitem_series_def north_index_def south_index_def
      DataFrame_record_def insert_col_def new_ledger_def finish_sweep_def concat_frames_def
      north_row_def upt_rec Let_def numeral_eq_Suc)

text \<open>
  C2. The table has ten observations, five with region north and five with region south,
  and any targets and predictions. The two-group metric function returns the record with
  \<^verbatim>\<open>Selection Ratio\<close> 1.0 on the indicator partition of the north and raises on that of the
  south. Then \<^verbatim>\<open>__apply_biasGroups\<close> returns the table with the single row (region, north),
  the ledger of exceptions has the single entry for \<^verbatim>\<open>region\<close>, and the ledger of warnings
  has no other key.
\<close>

theorem two_regions_scenario:
  assumes "length yts = 10" and "length yhs = 10"
      and "func (zip north_index yts) (zip north_index yhs) pa_name 1
             = (w, Inr [(''Selection Ratio'', Num 1)])"
      and "snd (func (zip south_index yts) (zip south_index yhs) pa_name 1) = Inl ex"
  shows "results_of (apply_biasGroups fmt [''region''] (scenario_frame yts yhs) func ''y_true'' ''y_pred'')
           = Some north_row
       \<and> len north_row = 1
       \<and> errs_of (apply_biasGroups fmt [''region''] (scenario_frame yts yhs) func ''y_true'' ''y_pred'')
           = [''region'' \<mapsto> ex]
       \<and> dom (warns_of (apply_biasGroups fmt [''region''] (scenario_frame yts yhs) func
                 ''y_true'' ''y_pred'')) \<subseteq> {''region''}"
proof -
  from length_ten [OF assms(1)] obtain a b c d e f g h i j where
    yts: "yts = [a, b, c, d, e, f, g, h, i, j]" by blast
  from length_ten [OF assms(2)] obtain a' b' c' d' e' f' g' h' i' j' where
    yhs: "yhs = [a', b', c', d', e', f', g', h', i', j']" by blast
  obtain w' where s: "func (zip south_index yts) (zip south_index yhs) pa_name 1 = (w', Inl ex)"
    using assms(4) by (cases "func (zip south_index yts) (zip south_index yhs) pa_name 1") auto
  have "apply_biasGroups fmt [''region''] (scenario_frame yts yhs) func ''y_true'' ''y_pred''
         = Inr (north_row, [''region'' \<mapsto> ex], if w = [] then Map.empty else [''region'' \<mapsto> w])"
    using region_sweep_explicit [of func a b c d e f g h i j a' b' c' d' e' f' g' h' i' j' w w' ex fmt]
      assms(3) s unfolding yts yhs by simp
  then show ?thesis
    by (simp add: results_of_def errs_of_def warns_of_def north_row_def len_def RangeIndex_def)
qed

theorem two_regions_scenario_witness:
  "results_of (apply_biasGroups (fmt_float demo_env) [''region'']
      (scenario_frame (replicate 10 (Num 1)) (replicate 10 (Num 0))) ratio_or_fail ''y_true'' ''y_pred'')
     = Some north_row
   \<and> errs_of (apply_biasGroups (fmt_float demo_env) [''region'']
      (scenario_frame (replicate 10 (Num 1)) (replicate 10 (Num 0))) ratio_or_fail ''y_true'' ''y_pred'')
     = [''region'' \<mapsto> Exc ''boom'']"
proof -
  have 1: "length (replicate 10 (Num 1)) = 10" and 2: "length (replicate 10 (Num 0)) = 10"
    by simp_all
  have 3: "ratio_or_fail (zip north_index (replicate 10 (Num 1))) (zip north_index (replicate 10 (Num 0)))
             pa_name 1 = ([], Inr [(''Selection Ratio'', Num 1)])"
    by (simp add: ratio_or_fail_def north_index_def numeral_eq_Suc)
  have 4: "snd (ratio_or_fail (zip south_index (replicate 10 (Num 1)))
             (zip south_index (replicate 10 (Num 0))) pa_name 1) = Inl (Exc ''boom'')"
    by (simp add: ratio_or_fail_def south_index_def numeral_eq_Suc)
  from two_regions_scenario [where func = ratio_or_fail and yts = "replicate 10 (Num 1)"
      and yhs = "replicate 10 (Num 0)" and w = "[]" and ex = "Exc ''boom''"
      and fmt = "fmt_float demo_env", OF 1 2 3 4]
  show ?thesis
    by simp
qed


subsection \<open>Failures are never raised to the caller\<close>
































section \<open>The privileged-group marker\<close>

lemma call_metric_cong:
  assumes "agree_at_one f1 f2"
  shows "call_metric f1 = call_metric f2"
  using assms by (intro ext) (auto simp: call_metric_def agree_at_one_def split: sum.splits)

lemma value_step_cong:
  assumes "agree_at_one f1 f2"
  shows "value_step f1 = value_step f2"
  by (intro ext) (simp only: value_step_def call_metric_cong [OF assms])

lemma bias_feature_step_cong:
  assumes "agree_at_one f1 f2"
  shows "bias_feature_step fmt f1 = bias_feature_step fmt f2"
  by (intro ext) (simp only: bias_feature_step_def value_step_cong [OF assms])

lemma apply_biasGroups_cong:
  assumes "agree_at_one f1 f2"
  shows "apply_biasGroups fmt fs d f1 yt yh = apply_biasGroups fmt fs d f2 yt yh"
  by (simp only: apply_biasGroups_def bias_feature_step_cong [OF assms])

lemma stratified_ignores_kwargs:
  "stratified_bias_report ev func (c\<lparr>arg_kwargs := k\<rparr>) = stratified_bias_report ev func c"
  by (auto simp: stratified_bias_report_def split: option.splits)

lemma iterate_cohorts_kwargs:
  assumes "same_but_priv_grp k1 k2"
  shows "iterate_cohorts ev (stratified_bias_report ev func) (c\<lparr>arg_kwargs := k1\<rparr>)
       = iterate_cohorts ev (stratified_bias_report ev func) (c\<lparr>arg_kwargs := k2\<rparr>)"
proof -
  have co: "k1 ''cohorts'' = k2 ''cohorts''"
    using assms by (simp add: same_but_priv_grp_def)
  show ?thesis
    using co by (auto simp: iterate_cohorts_def stratified_ignores_kwargs split: option.splits kwarg.splits)
qed

text \<open>
  C7. \<^verbatim>\<open>__apply_biasGroups\<close> calls the two-group metric function with the privileged-group
  marker 1 only: two metric functions that agree wherever the marker is 1 give the same
  result. And two calls of \<^verbatim>\<open>bias_report\<close> whose keyword arguments differ in \<^verbatim>\<open>priv_grp\<close>
  at most return the same report.
\<close>

theorem priv_grp_fixed_at_one:
  "(agree_at_one f1 f2 \<longrightarrow>
      apply_biasGroups fmt fs d f1 yt yh = apply_biasGroups fmt fs d f2 yt yh)
   \<and> (same_but_priv_grp k1 k2 \<longrightarrow>
      bias_report ev X y_true y_pred features pred_type sig_fig flag_oor k1
        = bias_report ev X y_true y_pred features pred_type sig_fig flag_oor k2)"
proof (intro conjI impI)
  assume "agree_at_one f1 f2"
  then show "apply_biasGroups fmt fs d f1 yt yh = apply_biasGroups fmt fs d f2 yt yh"
    by (rule apply_biasGroups_cong)
next
  assume k: "same_but_priv_grp k1 k2"
  have "iterate_cohorts ev (stratified_bias_report ev func)
          \<lparr>arg_X = X, arg_y_true = y_true, arg_y_pred = y_pred,
           arg_features = features, arg_kwargs = k1\<rparr>
      = iterate_cohorts ev (stratified_bias_report ev func)
          \<lparr>arg_X = X, arg_y_true = y_true, arg_y_pred = y_pred,
           arg_features = features, arg_kwargs = k2\<rparr>" for func
    using iterate_cohorts_kwargs [OF k, of ev func
        "\<lparr>arg_X = X, arg_y_true = y_true, arg_y_pred = y_pred,
          arg_features = features, arg_kwargs = k1\<rparr>"]
    by simp
  then show "bias_report ev X y_true y_pred features pred_type sig_fig flag_oor k1
        = bias_report ev X y_true y_pred features pred_type sig_fig flag_oor k2"
    by (simp add: bias_report_def Let_def classification_bias_report_def [abs_def]
        regression_bias_report_def [abs_def])
qed

theorem priv_grp_fixed_at_one_witness:
  "apply_biasGroups (fmt_float demo_env) [''region''] region_frame ratio_or_fail ''y_true'' ''y_pred''
     = apply_biasGroups (fmt_float demo_env) [''region''] region_frame ratio_if_one ''y_true'' ''y_pred''
   \<and> bias_report demo_env region_frame (Some [Num 1, Num 0, Num 1, Num 1])
        (Some [Num 1, Num 1, Num 0, Num 1]) None ''classification'' (PyInt 4) False
        [''priv_grp'' \<mapsto> Plain (PyInt 0)]
     = bias_report demo_env region_frame (Some [Num 1, Num 0, Num 1, Num 1])
        (Some [Num 1, Num 1, Num 0, Num 1]) None ''classification'' (PyInt 4) False
        [''priv_grp'' \<mapsto> Plain (PyInt 1)]"
proof -
  have a: "agree_at_one ratio_or_fail ratio_if_one"
    by (simp add: agree_at_one_def ratio_if_one_def)
  have k: "same_but_priv_grp [''priv_grp'' \<mapsto> Plain (PyInt 0) :: unit kwarg]
                             [''priv_grp'' \<mapsto> Plain (PyInt 1)]"
    by (simp add: same_but_priv_grp_def)
  from priv_grp_fixed_at_one [where ?f1.0 = ratio_or_fail and ?f2.0 = ratio_if_one
      and ?k1.0 = "[''priv_grp'' \<mapsto> Plain (PyInt 0)]" and ?k2.0 = "[''priv_grp'' \<mapsto> Plain (PyInt 1)]"
      and ev = demo_env] a k
  show ?thesis
    by blast
qed

end
